theory Spec2Isabelle
  imports Main "HOL-Library.Sublist"
begin

section \<open>JavaScript values used by the routes and the Wowza service\<close>

text \<open>
  A string is the \<open>char list\<close> of its UTF-8 bytes. A value that may be \<open>undefined\<close> or
  \<open>null\<close> is an \<open>option\<close>. JavaScript's \<open>||\<close>, \<open>!x\<close> and \<open>x ? a : b\<close> test
  truthiness: a missing value, the number 0 and the empty string are falsy. Numbers are
  doubles; the integral ones are modelled by \<open>nat\<close> and \<open>int\<close>.
\<close>

definition truthy_str :: "string option \<Rightarrow> bool" where
  "truthy_str s = (case s of None \<Rightarrow> False | Some v \<Rightarrow> v \<noteq> [])"

definition truthy_num :: "int option \<Rightarrow> bool" where
  "truthy_num x = (case x of None \<Rightarrow> False | Some v \<Rightarrow> v \<noteq> 0)"

definition or_num :: "int option \<Rightarrow> int \<Rightarrow> int" where
  \<comment> \<open>\<open>x || d\<close> on numbers\<close>
  "or_num x d = (case x of None \<Rightarrow> d | Some v \<Rightarrow> if v = 0 then d else v)"

definition js_includes :: "string \<Rightarrow> string \<Rightarrow> bool" where
  \<comment> \<open>\<open>s.includes(sub)\<close>: \<open>sub\<close> occurs in \<open>s\<close> as a contiguous run\<close>
  "js_includes s sub = sublist sub s"

definition endsWith :: "string \<Rightarrow> string \<Rightarrow> bool" where
  "endsWith s suf = suffix suf s"

definition digit_char :: "nat \<Rightarrow> char" where
  "digit_char d = char_of (of_char CHR ''0'' + d)"

fun digits :: "nat \<Rightarrow> string" where
  \<comment> \<open>the digits of a natural number in base 10\<close>
  "digits n = (if 10 \<le> n then digits (n div 10) @ [digit_char (n mod 10)] else [digit_char n])"

declare digits.simps [simp del]

text \<open>
  The text a template literal gives a number is \<open>Number::toString\<close>: every digit for an
  integral number below \<open>10^21\<close>, and from \<open>10^21\<close> on the exponent form \<open>d.ddde+n\<close>
  with the fewest digits that still read back as the same double (the closest such
  digits, the even ones on a tie), or \<open>Infinity\<close> beyond the largest double.
\<close>

fun bit_count :: "nat \<Rightarrow> nat" where
  \<comment> \<open>the number of binary digits\<close>
  "bit_count n = (if n = 0 then 0 else Suc (bit_count (n div 2)))"

declare bit_count.simps [simp del]

definition to_double :: "nat \<Rightarrow> nat" where
  \<comment> \<open>the double nearest to a natural number (53 significant bits, ties to even)\<close>
  "to_double n =
     (if bit_count n \<le> 53 then n
      else
        let shift = bit_count n - 53;
            q = n div 2 ^ shift;
            rest = n mod 2 ^ shift;
            half = 2 ^ (shift - 1)
        in (if half < rest \<or> (rest = half \<and> odd q) then q + 1 else q) * 2 ^ shift)"

definition round_trips :: "nat \<Rightarrow> nat \<Rightarrow> nat list" where
  \<comment> \<open>the numbers of \<open>k\<close> significant digits next to \<open>x\<close> that read back as \<open>x\<close>, the
      preferred one first\<close>
  "round_trips x k =
     (let e = length (digits x) - k;
          lo = (x div 10 ^ e) * 10 ^ e;
          hi = lo + 10 ^ e;
          ordered =
            (if x - lo < hi - x then [lo, hi]
             else if hi - x < x - lo then [hi, lo]
             else if even (x div 10 ^ e) then [lo, hi]
             else [hi, lo])
      in filter (\<lambda>v. to_double v = x) ordered)"

definition shortest :: "nat \<Rightarrow> nat" where
  \<comment> \<open>17 significant digits tell any two doubles apart\<close>
  "shortest x =
     (case concat (map (round_trips x) [1 ..< 18]) of
        [] \<Rightarrow> x
      | v # _ \<Rightarrow> v)"

definition exponent_text :: "nat \<Rightarrow> string" where
  "exponent_text x =
     (let ds = digits (shortest x);
          significant = rev (dropWhile (\<lambda>c. c = CHR ''0'') (rev ds));
          mantissa =
            (case significant of
               [] \<Rightarrow> []
             | [d] \<Rightarrow> [d]
             | d # more \<Rightarrow> d # CHR ''.'' # more)
      in mantissa @ ''e+'' @ digits (length ds - 1))"

definition decimal :: "nat \<Rightarrow> string" where
  \<comment> \<open>the text a template literal gives a non-negative integral number\<close>
  "decimal n =
     (if n < 10 ^ 21 then digits n
      else if 2 ^ 1024 \<le> to_double n then ''Infinity''
      else exponent_text (to_double n))"

definition decimal_int :: "int \<Rightarrow> string" where
  \<comment> \<open>the text a template literal gives an integral number\<close>
  "decimal_int i = (if 0 \<le> i then decimal (nat i) else CHR ''-'' # decimal (nat (- i)))"

definition dq :: string where
  \<comment> \<open>the double quote character\<close>
  "dq = [CHR 0x22]"

definition sq :: string where
  \<comment> \<open>the single quote character\<close>
  "sq = [CHR 0x27]"

definition bslash :: string where
  \<comment> \<open>the backslash character\<close>
  "bslash = [CHR 0x5C]"

section \<open>WowzaStreamingService.checkUserLimits\<close>

text \<open>
  \<^verbatim>\<open>
  async checkUserLimits(userConfig, requestedBitrate) {
    const maxBitrate = userConfig.bitrate || 2500;
    const allowedBitrate = requestedBitrate ? Math.min(requestedBitrate, maxBitrate) : maxBitrate;
    const warnings = [];
    if (requestedBitrate && requestedBitrate > maxBitrate) {
      warnings.push(`Bitrate solicitado (${requestedBitrate} kbps) excede o limite do plano (${maxBitrate} kbps)`);
    }
    return { success: true,
             limits: { bitrate: { max: maxBitrate, requested: requestedBitrate || maxBitrate,
                                  allowed: allowedBitrate },
                       viewers: { max: userConfig.espectadores || 100 } },
             warnings };
  }
  \<close>
  Bitrates and viewer counts are integral numbers (kbps, heads), so they are \<open>int\<close>.
\<close>

record user_config =
  uc_bitrate :: "int option"
  uc_espectadores :: "int option"

record user_limits =
  ul_success :: bool
  ul_bitrate_max :: int
  ul_bitrate_requested :: int
  ul_bitrate_allowed :: int
  ul_viewers_max :: int
  ul_warnings :: "string list"

definition checkUserLimits :: "user_config \<Rightarrow> int option \<Rightarrow> user_limits" where
  "checkUserLimits userConfig requestedBitrate =
     (let maxBitrate = or_num (uc_bitrate userConfig) 2500;
          allowedBitrate =
            (case requestedBitrate of
               None \<Rightarrow> maxBitrate
             | Some r \<Rightarrow> if r \<noteq> 0 then min r maxBitrate else maxBitrate);
          warnings =
            (case requestedBitrate of
               None \<Rightarrow> []
             | Some r \<Rightarrow>
                 if r \<noteq> 0 \<and> r > maxBitrate
                 then [''Bitrate solicitado ('' @ decimal_int r
                       @ '' kbps) excede o limite do plano ('' @ decimal_int maxBitrate
                       @ '' kbps)'']
                 else [])
      in \<lparr> ul_success = True,
           ul_bitrate_max = maxBitrate,
           ul_bitrate_requested = or_num requestedBitrate maxBitrate,
           ul_bitrate_allowed = allowedBitrate,
           ul_viewers_max = or_num (uc_espectadores userConfig) 100,
           ul_warnings = warnings \<rparr>)"

section \<open>The transcoder command of POST /api/streaming/start-live\<close>

text \<open>
  The route builds the ffmpeg invocation inline from the platform id \<open>tipo\<close>, the source
  \<open>servidor_stm\<close> and the destination \<open>servidor_live\<close>:
  \<^verbatim>\<open>
  if (tipo === 'facebook') {
    ffmpegCommand = `/usr/local/bin/ffmpeg -re -i "${servidor_stm}" -c:v copy -c:a copy -bsf:a aac_adtstoasc -preset ultrafast -strict experimental -threads 1 -f flv "${servidor_live}"`;
  } else if (tipo === 'tiktok' || tipo === 'kwai') {
    ffmpegCommand = `/usr/local/bin/ffmpeg -re -i "${servidor_stm}" -vf 'crop=ih*(9/16):ih' -crf 21 -r 24 -g 48 -b:v 3000000 -b:a 128k -ar 44100 -acodec aac -vcodec libx264 -preset ultrafast -bufsize '(6.000*3000000)/8' -maxrate 3500000 -threads 1 -f flv "${servidor_live}"`;
  } else {
    ffmpegCommand = `/usr/local/bin/ffmpeg -re -i "${servidor_stm}" -c:v copy -c:a copy -bsf:a aac_adtstoasc -preset ultrafast -strict experimental -threads 1 -f flv "${servidor_live}"`;
  }
  \<close>
\<close>

definition copy_args :: string where
  "copy_args = '' -c:v copy -c:a copy -bsf:a aac_adtstoasc -preset ultrafast -strict experimental -threads 1 -f flv ''"

definition vertical_crop_args :: string where
  "vertical_crop_args = '' -vf 'crop=ih*(9/16):ih' -crf 21 -r 24 -g 48 -b:v 3000000 -b:a 128k -ar 44100 -acodec aac -vcodec libx264 -preset ultrafast -bufsize '(6.000*3000000)/8' -maxrate 3500000 -threads 1 -f flv ''"

definition ffmpegCommand :: "string \<Rightarrow> string \<Rightarrow> string \<Rightarrow> string" where
  "ffmpegCommand tipo servidor_stm servidor_live =
     (if tipo = ''facebook'' then
        ''/usr/local/bin/ffmpeg -re -i '' @ dq @ servidor_stm @ dq @ copy_args @ dq @ servidor_live @ dq
      else if tipo = ''tiktok'' \<or> tipo = ''kwai'' then
        ''/usr/local/bin/ffmpeg -re -i '' @ dq @ servidor_stm @ dq @ vertical_crop_args @ dq @ servidor_live @ dq
      else
        ''/usr/local/bin/ffmpeg -re -i '' @ dq @ servidor_stm @ dq @ copy_args @ dq @ servidor_live @ dq)"

definition crop_9_16 :: string where
  \<comment> \<open>the crop filter expression: width = input height * 9/16, height = input height\<close>
  "crop_9_16 = ''crop=ih*(9/16):ih''"

section \<open>The store behind the routes\<close>

text \<open>
  The routes of \<open>backend/routes/streaming.js\<close> read and write a MySQL database through
  \<open>db.execute\<close>. The tables they touch are lists of rows. Playlist transmissions live in
  \<open>transmissoes\<close> with \<open>status\<close> one of \<open>ativa\<close>, \<open>pausada\<close>, \<open>finalizada\<close>; external-push
  sessions live in \<open>lives\<close> with \<open>status\<close> one of the strings \<open>0\<close> to \<open>3\<close>. Dates are
  points on a clock (\<open>nat\<close>). The store itself is taken to answer every statement; what
  fails in the model is the transport to the remote host and to the media server.
\<close>

type_synonym datetime = nat

record transmissao =
  t_codigo :: nat
  t_codigo_stm :: nat
  t_titulo :: string
  t_descricao :: string
  t_codigo_playlist :: nat
  t_status :: string
  t_data_inicio :: datetime
  t_data_fim :: "datetime option"
  t_gravacao_ativa :: nat
  t_loop_playlist :: nat
  t_use_smil :: nat

record live =
  l_codigo :: nat
  l_codigo_stm :: nat
  l_data_inicio :: datetime
  l_data_fim :: "datetime option"
  l_tipo :: string
  l_servidor_stm :: string
  l_servidor_live :: string
  l_status :: string

record streaming =
  s_codigo :: nat
  s_codigo_cliente :: nat
  s_usuario :: "string option"
  s_email :: "string option"

record playlist =
  p_id :: nat
  p_nome :: string
  p_total_videos :: nat
  p_codigo_stm :: nat

record folder =
  f_user_id :: nat
  f_servidor_id :: nat

record store =
  transmissoes :: "transmissao list"
  lives :: "live list"
  streamings :: "streaming list"
  playlists :: "playlist list"
  folders :: "folder list"

definition owned_by :: "store \<Rightarrow> nat \<Rightarrow> nat \<Rightarrow> bool" where
  \<comment> \<open>\<open>codigo_stm = ? OR codigo_stm IN (SELECT codigo FROM streamings WHERE codigo_cliente = ?)\<close>\<close>
  "owned_by db userId stm =
     (stm = userId
      \<or> stm \<in> set (map s_codigo (filter (\<lambda>s. s_codigo_cliente s = userId) (streamings db))))"

definition servidor_of :: "store \<Rightarrow> nat \<Rightarrow> nat" where
  \<comment> \<open>\<open>SELECT servidor_id FROM folders WHERE user_id = ? LIMIT 1\<close>, and 1 when there is no row\<close>
  "servidor_of db userId =
     (case filter (\<lambda>f. f_user_id f = userId) (folders db) of
        [] \<Rightarrow> 1
      | f # _ \<Rightarrow> f_servidor_id f)"

definition insertId :: "nat list \<Rightarrow> nat" where
  \<comment> \<open>the auto-increment key of a new row: above every key of the table\<close>
  "insertId keys = Suc (fold max keys 0)"

definition update_lives :: "(live \<Rightarrow> bool) \<Rightarrow> (live \<Rightarrow> live) \<Rightarrow> store \<Rightarrow> store" where
  \<comment> \<open>\<open>UPDATE lives SET ... WHERE ...\<close>\<close>
  "update_lives P f db = db\<lparr>lives := map (\<lambda>r. if P r then f r else r) (lives db)\<rparr>"

fun order_desc_limit1 :: "('a \<Rightarrow> datetime) \<Rightarrow> 'a list \<Rightarrow> 'a option" where
  \<comment> \<open>\<open>ORDER BY data_inicio DESC LIMIT 1\<close>; among equal dates the row stored first\<close>
  "order_desc_limit1 k [] = None"
| "order_desc_limit1 k (x # xs) =
     (case order_desc_limit1 k xs of
        None \<Rightarrow> Some x
      | Some y \<Rightarrow> if k x < k y then Some y else Some x)"

subsection \<open>The session states of the specification, read off a row\<close>

text \<open>
  The route \<open>GET /lives\<close> names the status codes of \<open>lives\<close>: \<open>1\<close> is
  \<open>Transmitindo\<close>, \<open>2\<close> is \<open>Agendado\<close>, \<open>3\<close> is \<open>Erro\<close>, anything else is
  \<open>Finalizado\<close>. A playlist transmission is inserted as \<open>ativa\<close> and stopped as
  \<open>finalizada\<close>. No status of either table stands for \<open>Starting\<close> or \<open>Stopping\<close>.
\<close>

datatype declaredState = Scheduled | Starting | Live | Stopping | Stopped | Failed

definition live_state :: "live \<Rightarrow> declaredState" where
  "live_state r =
     (if l_status r = ''1'' then Live
      else if l_status r = ''2'' then Scheduled
      else if l_status r = ''3'' then Failed
      else Stopped)"

definition non_terminal :: "declaredState \<Rightarrow> bool" where
  "non_terminal st = (st = Starting \<or> st = Live)"

definition terminal :: "declaredState \<Rightarrow> bool" where
  "terminal st = (st = Stopped \<or> st = Failed)"

section \<open>The authenticated user of a request\<close>

text \<open>
  \<^verbatim>\<open>
  const userId = req.user.effective_user_id || req.user.id;      // start, stop, status
  const userId = req.user.id;                                    // start-live, stop-live
  const userLogin = req.user.usuario || (req.user.email ? req.user.email.split('@')[0] : `user_${userId}`);
  \<close>
\<close>

record req_user =
  u_id :: nat
  u_effective_user_id :: "nat option"
  u_usuario :: "string option"
  u_email :: "string option"

definition effective_id :: "req_user \<Rightarrow> nat" where
  "effective_id u =
     (case u_effective_user_id u of
        None \<Rightarrow> u_id u
      | Some e \<Rightarrow> if e \<noteq> 0 then e else u_id u)"

definition before_at :: "string \<Rightarrow> string" where
  \<comment> \<open>\<open>email.split('@')[0]\<close>\<close>
  "before_at s = takeWhile (\<lambda>c. c \<noteq> CHR ''@'') s"

definition login_from_email :: "string option \<Rightarrow> nat \<Rightarrow> string" where
  "login_from_email email userId =
     (case email of
        None \<Rightarrow> ''user_'' @ decimal userId
      | Some e \<Rightarrow> if e \<noteq> [] then before_at e else ''user_'' @ decimal userId)"

definition userLogin_of :: "req_user \<Rightarrow> nat \<Rightarrow> string" where
  "userLogin_of u userId =
     (case u_usuario u of
        None \<Rightarrow> login_from_email (u_email u) userId
      | Some n \<Rightarrow> if n \<noteq> [] then n else login_from_email (u_email u) userId)"

section \<open>Remote actions\<close>

text \<open>
  A route's effects outside the store are recorded in the order they are requested:
  a command sent through \<open>SSHManager.executeCommand(serverId, command)\<close>, and the rewrite
  of the user's SMIL file by \<open>PlaylistSMILService.updateUserSMIL\<close>. The command
  transport either throws (connection refused, authentication, timeout) with a message,
  or returns the command's standard output.
\<close>

datatype remote_action =
    SSH_executeCommand nat string
  | UpdateUserSMIL nat string nat

datatype ssh_outcome = SSH_throws string | SSH_result string

type_synonym ssh_transport = "nat \<Rightarrow> string \<Rightarrow> ssh_outcome"

section \<open>POST /api/streaming/start: start a playlist transmission\<close>

text \<open>
  \<^verbatim>\<open>
  if (!titulo || !playlist_id) return res.status(400).json({ success: false, ... });
  const [playlistRows] = await db.execute(`SELECT id, nome, total_videos FROM playlists
       WHERE id = ? AND (codigo_stm = ? OR codigo_stm IN (...))`, [playlist_id, userId, userId]);
  if (playlistRows.length === 0) return res.status(404).json({ success: false, ... });
  const playlist = playlistRows[0];
  if (playlist.total_videos === 0) return res.status(400).json({ success: false, ... });
  // Verificar se ja ha transmissao ativa
  const [activeTransmission] = await db.execute(`SELECT codigo FROM transmissoes
       WHERE (codigo_stm = ? OR codigo_stm IN (...)) AND status = "ativa"`, [userId, userId]);
  if (activeTransmission.length > 0)
    return res.status(400).json({ success: false,
      error: 'Ja existe uma transmissao ativa. Finalize-a antes de iniciar uma nova.' });
  const [result] = await db.execute(`INSERT INTO transmissoes (...) VALUES (?, ?, ?, ?, 'ativa', NOW(), ?, ?, ?)`, ...);
  const transmissionId = result.insertId;
  try { ... await PlaylistSMILService.updateUserSMIL(userId, userLogin, serverId); } catch (smilError) { console.warn(...) }
  res.json({ success: true, ... });
  \<close>
\<close>

record start_body =
  sb_titulo :: "string option"
  sb_descricao :: "string option"
  sb_playlist_id :: "nat option"
  sb_enable_recording :: bool
  sb_use_smil :: bool
  sb_loop_playlist :: bool

datatype start_reply =
    Start_400_titulo_playlist_obrigatorios
  | Start_404_playlist_nao_encontrada
  | Start_400_playlist_sem_videos
  | Start_400_ja_existe_transmissao_ativa
  | Start_200 nat string

definition active_transmissions :: "store \<Rightarrow> nat \<Rightarrow> transmissao list" where
  "active_transmissions db userId =
     filter (\<lambda>t. owned_by db userId (t_codigo_stm t) \<and> t_status t = ''ativa'') (transmissoes db)"

definition start :: "datetime \<Rightarrow> store \<Rightarrow> req_user \<Rightarrow> start_body \<Rightarrow> start_reply \<times> store \<times> remote_action list" where
  "start now db user body =
     (let userId = effective_id user;
          userLogin = userLogin_of user userId
      in case (sb_titulo body, sb_playlist_id body) of
           (Some titulo, Some playlist_id) \<Rightarrow>
             if titulo = [] \<or> playlist_id = 0 then (Start_400_titulo_playlist_obrigatorios, db, [])
             else
               (case filter (\<lambda>p. p_id p = playlist_id \<and> owned_by db userId (p_codigo_stm p)) (playlists db) of
                  [] \<Rightarrow> (Start_404_playlist_nao_encontrada, db, [])
                | playlist # _ \<Rightarrow>
                    if p_total_videos playlist = 0 then (Start_400_playlist_sem_videos, db, [])
                    else if active_transmissions db userId \<noteq> [] then
                      (Start_400_ja_existe_transmissao_ativa, db, [])
                    else
                      let transmissionId = insertId (map t_codigo (transmissoes db));
                          row = \<lparr> t_codigo = transmissionId,
                                  t_codigo_stm = userId,
                                  t_titulo = titulo,
                                  t_descricao = (case sb_descricao body of None \<Rightarrow> [] | Some d \<Rightarrow> d),
                                  t_codigo_playlist = playlist_id,
                                  t_status = ''ativa'',
                                  t_data_inicio = now,
                                  t_data_fim = None,
                                  t_gravacao_ativa = (if sb_enable_recording body then 1 else 0),
                                  t_loop_playlist = (if sb_loop_playlist body then 1 else 0),
                                  t_use_smil = (if sb_use_smil body then 1 else 0) \<rparr>;
                          db' = db\<lparr>transmissoes := transmissoes db @ [row]\<rparr>
                      in (Start_200 transmissionId (p_nome playlist), db',
                          [UpdateUserSMIL userId userLogin (servidor_of db' userId)]))
         | _ \<Rightarrow> (Start_400_titulo_playlist_obrigatorios, db, []))"

section \<open>POST /api/streaming/start-live: start an external push\<close>

subsection \<open>parseInt\<close>

text \<open>
  \<open>parseInt(checkResult.stdout.trim()) || 0\<close>: leading white space is skipped, then an
  optional sign, then an optional \<open>0x\<close> that selects radix 16, then the longest run of
  digits; no digit at all gives NaN, which \<open>|| 0\<close> turns into 0. The number is only
  compared with 0 afterwards, so it is kept as an \<open>int\<close>.

  White space is what \<open>trim\<close> and \<open>parseInt\<close> skip: TAB, LF, VT, FF, CR, SPACE, and
  beyond ASCII U+00A0, U+1680, U+2000 to U+200A, U+2028, U+2029, U+202F, U+205F, U+3000
  and U+FEFF, here in their UTF-8 bytes.
\<close>

definition white_space :: "string list" where
  "white_space =
     [[CHR 0x09], [CHR 0x0A], [CHR 0x0B], [CHR 0x0C], [CHR 0x0D], [CHR 0x20],
      [CHR 0xC2, CHR 0xA0],
      [CHR 0xE1, CHR 0x9A, CHR 0x80],
      [CHR 0xE2, CHR 0x80, CHR 0x80], [CHR 0xE2, CHR 0x80, CHR 0x81], [CHR 0xE2, CHR 0x80, CHR 0x82],
      [CHR 0xE2, CHR 0x80, CHR 0x83], [CHR 0xE2, CHR 0x80, CHR 0x84], [CHR 0xE2, CHR 0x80, CHR 0x85],
      [CHR 0xE2, CHR 0x80, CHR 0x86], [CHR 0xE2, CHR 0x80, CHR 0x87], [CHR 0xE2, CHR 0x80, CHR 0x88],
      [CHR 0xE2, CHR 0x80, CHR 0x89], [CHR 0xE2, CHR 0x80, CHR 0x8A],
      [CHR 0xE2, CHR 0x80, CHR 0xA8], [CHR 0xE2, CHR 0x80, CHR 0xA9], [CHR 0xE2, CHR 0x80, CHR 0xAF],
      [CHR 0xE2, CHR 0x81, CHR 0x9F],
      [CHR 0xE3, CHR 0x80, CHR 0x80],
      [CHR 0xEF, CHR 0xBB, CHR 0xBF]]"

definition white_prefix :: "string \<Rightarrow> nat" where
  \<comment> \<open>the number of bytes of the white-space character a string starts with, 0 if it starts with none\<close>
  "white_prefix s = (case find (\<lambda>w. prefix w s) white_space of None \<Rightarrow> 0 | Some w \<Rightarrow> length w)"

function skip_white :: "string \<Rightarrow> string" where
  "skip_white s = (if white_prefix s = 0 then s else skip_white (drop (white_prefix s) s))"
  by pat_completeness auto
termination
proof (relation "measure length")
  show "wf (measure length)" by simp
next
  fix s :: string
  assume "white_prefix s \<noteq> 0"
  then have positive: "0 < white_prefix s" by simp
  have "white_prefix s \<le> length s"
  proof (cases "find (\<lambda>w. prefix w s) white_space")
    case None
    then show ?thesis by (simp add: white_prefix_def)
  next
    case (Some w)
    then have "prefix w s" by (metis (mono_tags, lifting) find_Some_iff)
    then have "length w \<le> length s" by (rule prefix_length_le)
    then show ?thesis using Some by (simp add: white_prefix_def)
  qed
  then have "length (drop (white_prefix s) s) < length s" using positive by simp
  then show "(drop (white_prefix s) s, s) \<in> measure length" by simp
qed

declare skip_white.simps [simp del]

definition digit_of :: "nat \<Rightarrow> char \<Rightarrow> nat option" where
  "digit_of radix c =
     (let n = (of_char c :: nat);
          v = (if 48 \<le> n \<and> n \<le> 57 then Some (n - 48)
               else if 97 \<le> n \<and> n \<le> 122 then Some (n - 87)
               else if 65 \<le> n \<and> n \<le> 90 then Some (n - 55)
               else None)
      in case v of None \<Rightarrow> None | Some d \<Rightarrow> if d < radix then Some d else None)"

definition digits_value :: "nat \<Rightarrow> string \<Rightarrow> nat" where
  "digits_value radix ds =
     fold (\<lambda>c acc. acc * radix + (case digit_of radix c of None \<Rightarrow> 0 | Some d \<Rightarrow> d)) ds 0"

definition parseInt :: "string \<Rightarrow> int option" where
  "parseInt s =
     (let t = skip_white s;
          negative = (case t of [] \<Rightarrow> False | c # _ \<Rightarrow> c = CHR ''-'');
          u = (case t of [] \<Rightarrow> [] | c # r \<Rightarrow> if c = CHR ''-'' \<or> c = CHR ''+'' then r else t);
          hex = (take 2 u = ''0x'' \<or> take 2 u = ''0X'');
          radix = (if hex then 16 else 10);
          v = (if hex then drop 2 u else u);
          ds = takeWhile (\<lambda>c. digit_of radix c \<noteq> None) v
      in if ds = [] then None
         else Some (if negative then - int (digits_value radix ds) else int (digits_value radix ds)))"

subsection \<open>The route\<close>

text \<open>
  \<^verbatim>\<open>
  if (!servidor_rtmp || !servidor_rtmp_chave || !data_fim) return res.status(400).json({...});
  const servidor_live = servidor_rtmp.endsWith('/') ? `${servidor_rtmp}${servidor_rtmp_chave}`
                                                    : `${servidor_rtmp}/${servidor_rtmp_chave}`;
  const dataInicioMySQL = data_inicio ? data_inicio.replace(/.../, '$3-$2-$1 $4') + ':00'
                                      : new Date().toISOString().slice(0, 19).replace('T', ' ');
  const dataFimMySQL = data_fim.replace(/.../, '$3-$2-$1 $4') + ':00';
  const serverId = serverRows.length > 0 ? serverRows[0].servidor_id : 1;
  const [result] = await db.execute(`INSERT INTO lives (codigo_stm, data_inicio, data_fim, tipo,
        servidor_stm, servidor_live, status) VALUES (?, ?, ?, ?, ?, ?, '2')`, [...]);
  const codigoLive = result.insertId;
  if (inicio_imediato === 'sim') {
    try {
      let ffmpegCommand; ...
      const screenCommand = `screen -dmS ${userLogin}_${codigoLive} bash -c "${ffmpegCommand}; exec sh"`;
      await SSHManager.executeCommand(serverId, `echo OK; ${screenCommand}`);
      await new Promise(resolve => setTimeout(resolve, 5000));
      const checkCommand = `/bin/ps aux | /bin/grep ffmpeg | /bin/grep rtmp | /bin/grep ${userLogin} | /bin/grep ${tipo} | /usr/bin/wc -l`;
      const checkResult = await SSHManager.executeCommand(serverId, checkCommand);
      const processCount = parseInt(checkResult.stdout.trim()) || 0;
      if (processCount > 0) {
        await db.execute('UPDATE lives SET status = "1", data_inicio = NOW() WHERE codigo = ?', [codigoLive]);
        const wowzaHost = 'stmv1.udicast.com';
        const playerUrls = { hls: ..., hls_http: ..., rtsp: ..., dash: ... };
        res.json({ success: true, ..., live_id: codigoLive, status: 'transmitindo', player_urls: playerUrls });
      } else {
        await db.execute('UPDATE lives SET status = "3" WHERE codigo = ?', [codigoLive]);
        res.status(500).json({ success: false, error: 'Erro ao iniciar live, tente novamente',
          debug_info: { stream_url: playerUrls.hls, live_id: codigoLive, processo_count: processCount,
                        comando_executado: ffmpegCommand, check_command: checkCommand,
                        check_result: checkResult.stdout } });
      }
    } catch (sshError) {
      await db.execute('UPDATE lives SET status = "3" WHERE codigo = ?', [codigoLive]);
      res.status(500).json({ success: false,
        error: 'Erro ao conectar com servidor para iniciar transmissao', details: sshError.message });
    }
  } else {
    res.json({ success: true, message: 'Live agendada com sucesso', live_id: codigoLive, status: 'agendado' });
  }
  \<close>
  The route makes no query for a session the owner already has before its INSERT.

  The conversion of the request's date text (the regular-expression rewrite, \<open>':00'\<close>
  appended, read by MySQL as a DATETIME) is a parameter of the model, as are the clock
  readings of \<open>new Date()\<close> and \<open>NOW()\<close>.
\<close>

record start_live_body =
  lb_tipo :: string
  lb_servidor_rtmp :: "string option"
  lb_servidor_rtmp_chave :: "string option"
  lb_servidor_stm :: string
  lb_data_inicio :: "string option"
  lb_data_fim :: "string option"
  lb_inicio_imediato :: "string option"

record live_env =
  le_executeCommand :: ssh_transport
  le_toDatetime :: "string \<Rightarrow> datetime"
  le_now_request :: datetime
  le_now_update :: datetime

record player_urls =
  pu_hls :: string
  pu_hls_http :: string
  pu_rtsp :: string
  pu_dash :: string

record debug_info =
  di_stream_url :: string
  di_live_id :: nat
  di_processo_count :: int
  di_comando_executado :: string
  di_check_command :: string
  di_check_result :: string

datatype start_live_reply =
    Live_400_campos_obrigatorios
  | Live_200_agendado nat
  | Live_200_transmitindo nat player_urls
  | Live_500_erro_ao_iniciar debug_info
  | Live_500_erro_ao_conectar string

definition wowzaHost :: string where
  "wowzaHost = ''stmv1.udicast.com''"

definition playerUrls_of :: "string \<Rightarrow> player_urls" where
  "playerUrls_of userLogin =
     \<lparr> pu_hls = ''https://'' @ wowzaHost @ ''/'' @ userLogin @ ''/'' @ userLogin @ ''/playlist.m3u8'',
       pu_hls_http = ''https://'' @ wowzaHost @ ''/'' @ userLogin @ ''/'' @ userLogin @ ''/playlist.m3u8'',
       pu_rtsp = ''rtsp://'' @ wowzaHost @ '':554/'' @ userLogin @ ''/'' @ userLogin,
       pu_dash = ''https://'' @ wowzaHost @ ''/'' @ userLogin @ ''/'' @ userLogin @ ''/manifest.mpd'' \<rparr>"

definition playerUrls_in_else_block :: "player_urls option" where
  \<comment> \<open>\<open>const playerUrls\<close> is declared inside the block of \<open>if (processCount > 0)\<close>; the
      \<open>else\<close> block is outside its scope and neither the route nor the module declares
      another \<open>playerUrls\<close>, so the name is unbound there\<close>
  "playerUrls_in_else_block = None"

definition screenCommand :: "string \<Rightarrow> nat \<Rightarrow> string \<Rightarrow> string" where
  "screenCommand userLogin codigoLive cmd =
     ''screen -dmS '' @ userLogin @ ''_'' @ decimal codigoLive @ '' bash -c '' @ dq @ cmd @ ''; exec sh'' @ dq"

definition checkCommand :: "string \<Rightarrow> string \<Rightarrow> string" where
  "checkCommand userLogin tipo =
     ''/bin/ps aux | /bin/grep ffmpeg | /bin/grep rtmp | /bin/grep '' @ userLogin
       @ '' | /bin/grep '' @ tipo @ '' | /usr/bin/wc -l''"

definition set_live_status :: "nat \<Rightarrow> string \<Rightarrow> store \<Rightarrow> store" where
  \<comment> \<open>\<open>UPDATE lives SET status = ? WHERE codigo = ?\<close>\<close>
  "set_live_status codigo st db = update_lives (\<lambda>r. l_codigo r = codigo) (\<lambda>r. r\<lparr>l_status := st\<rparr>) db"

definition immediate_start :: "live_env \<Rightarrow> store \<Rightarrow> string \<Rightarrow> nat \<Rightarrow> nat \<Rightarrow> string \<Rightarrow> string \<Rightarrow> string
    \<Rightarrow> (string + start_live_reply) \<times> store \<times> remote_action list" where
  \<comment> \<open>the body of the \<open>try\<close>: \<open>Inl message\<close> is an exception thrown out of it, \<open>Inr reply\<close>
      a response sent by it; the store and the actions are what was done until then\<close>
  "immediate_start env db userLogin serverId codigoLive tipo servidor_stm servidor_live =
     (let cmd = ffmpegCommand tipo servidor_stm servidor_live;
          startCommand = ''echo OK; '' @ screenCommand userLogin codigoLive cmd;
          verify = checkCommand userLogin tipo
      in case le_executeCommand env serverId startCommand of
           SSH_throws message \<Rightarrow> (Inl message, db, [SSH_executeCommand serverId startCommand])
         | SSH_result _ \<Rightarrow>
             (case le_executeCommand env serverId verify of
                SSH_throws message \<Rightarrow>
                  (Inl message, db,
                   [SSH_executeCommand serverId startCommand, SSH_executeCommand serverId verify])
              | SSH_result stdout \<Rightarrow>
                  let processCount = or_num (parseInt stdout) 0 in
                  if processCount > 0 then
                    (Inr (Live_200_transmitindo codigoLive (playerUrls_of userLogin)),
                     update_lives (\<lambda>r. l_codigo r = codigoLive)
                       (\<lambda>r. r\<lparr>l_status := ''1'', l_data_inicio := le_now_update env\<rparr>) db,
                     [SSH_executeCommand serverId startCommand, SSH_executeCommand serverId verify])
                  else
                    (case playerUrls_in_else_block of
                       None \<Rightarrow>
                         (Inl ''playerUrls is not defined'', set_live_status codigoLive ''3'' db,
                          [SSH_executeCommand serverId startCommand, SSH_executeCommand serverId verify])
                     | Some playerUrls \<Rightarrow>
                         (Inr (Live_500_erro_ao_iniciar
                                \<lparr> di_stream_url = pu_hls playerUrls,
                                  di_live_id = codigoLive,
                                  di_processo_count = processCount,
                                  di_comando_executado = cmd,
                                  di_check_command = verify,
                                  di_check_result = stdout \<rparr>),
                          set_live_status codigoLive ''3'' db,
                          [SSH_executeCommand serverId startCommand, SSH_executeCommand serverId verify]))))"

definition startLive :: "live_env \<Rightarrow> store \<Rightarrow> req_user \<Rightarrow> start_live_body
    \<Rightarrow> start_live_reply \<times> store \<times> remote_action list" where
  "startLive env db user body =
     (let userId = u_id user;
          userLogin = userLogin_of user userId
      in case (lb_servidor_rtmp body, lb_servidor_rtmp_chave body, lb_data_fim body) of
           (Some servidor_rtmp, Some servidor_rtmp_chave, Some data_fim) \<Rightarrow>
             if servidor_rtmp = [] \<or> servidor_rtmp_chave = [] \<or> data_fim = [] then
               (Live_400_campos_obrigatorios, db, [])
             else
               let servidor_live =
                     (if endsWith servidor_rtmp ''/'' then servidor_rtmp @ servidor_rtmp_chave
                      else servidor_rtmp @ ''/'' @ servidor_rtmp_chave);
                   dataInicio =
                     (case lb_data_inicio body of
                        None \<Rightarrow> le_now_request env
                      | Some d \<Rightarrow> if d \<noteq> [] then le_toDatetime env d else le_now_request env);
                   dataFim = le_toDatetime env data_fim;
                   serverId = servidor_of db userId;
                   codigoLive = insertId (map l_codigo (lives db));
                   row = \<lparr> l_codigo = codigoLive,
                           l_codigo_stm = userId,
                           l_data_inicio = dataInicio,
                           l_data_fim = Some dataFim,
                           l_tipo = lb_tipo body,
                           l_servidor_stm = lb_servidor_stm body,
                           l_servidor_live = servidor_live,
                           l_status = ''2'' \<rparr>;
                   db1 = db\<lparr>lives := lives db @ [row]\<rparr>
               in if lb_inicio_imediato body = Some ''sim'' then
                    (case immediate_start env db1 userLogin serverId codigoLive (lb_tipo body)
                            (lb_servidor_stm body) servidor_live of
                       (Inr reply, db2, acts) \<Rightarrow> (reply, db2, acts)
                     | (Inl message, db2, acts) \<Rightarrow>
                         (Live_500_erro_ao_conectar message, set_live_status codigoLive ''3'' db2, acts))
                  else (Live_200_agendado codigoLive, db1, [])
         | _ \<Rightarrow> (Live_400_campos_obrigatorios, db, []))"

section \<open>The registry of active transmissions\<close>

text \<open>
  \<^verbatim>\<open>
  // Mapa de processos ativos de transmissao
  const activeTransmissions = new Map();
  \<close>
  The module's state is the store and this map. Its keys are written
  \<open>`${userId}_${liveId}`\<close> and read back with \<open>key.split('_')\<close>, so a key is the pair
  of the two numbers; the map keeps insertion order. The module calls \<open>delete\<close> and
  \<open>clear\<close> on the map and nothing else: no route adds a key.
\<close>

record module_state =
  ms_db :: store
  activeTransmissions :: "(nat \<times> nat) list"

definition initial_registry :: "(nat \<times> nat) list" where
  "initial_registry = []"

definition registry_delete :: "nat \<times> nat \<Rightarrow> (nat \<times> nat) list \<Rightarrow> (nat \<times> nat) list" where
  "registry_delete k reg = filter (\<lambda>e. e \<noteq> k) reg"

section \<open>POST /api/streaming/stop-live/:id\<close>

text \<open>
  \<^verbatim>\<open>
  const [liveRows] = await db.execute('SELECT * FROM lives WHERE codigo = ? AND codigo_stm = ?', [liveId, userId]);
  if (liveRows.length === 0) return res.status(404).json({ success: false, error: ... });
  const live = liveRows[0];
  const serverId = serverRows.length > 0 ? serverRows[0].servidor_id : 1;
  try {
    const killCommand = `screen -ls | grep -o '[0-9]*\\.${userLogin}_${liveId}\\>' | xargs -I{} screen -X -S {} quit`;
    await SSHManager.executeCommand(serverId, `echo OK; ${killCommand}`);
    await db.execute('UPDATE lives SET status = "0", data_fim = NOW() WHERE codigo = ?', [liveId]);
    activeTransmissions.delete(`${userId}_${liveId}`);
    res.json({ success: true, message: ..., live_id: liveId, platform: live.tipo });
  } catch (sshError) {
    res.status(500).json({ success: false, error: 'Erro ao finalizar transmissao no servidor',
                           details: sshError.message });
  }
  \<close>
  The first statement after the row is found is the remote command; the only write to
  the store follows it.
\<close>

datatype stop_live_reply =
    StopLive_404_nao_encontrada
  | StopLive_200_finalizada nat string
  | StopLive_500_erro_ao_finalizar string

definition killCommand :: "string \<Rightarrow> nat \<Rightarrow> string" where
  "killCommand userLogin liveId =
     ''screen -ls | grep -o '' @ sq @ ''[0-9]*'' @ bslash @ ''.'' @ userLogin @ ''_'' @ decimal liveId
       @ bslash @ ''>'' @ sq @ '' | xargs -I{} screen -X -S {} quit''"

definition finalize_live :: "datetime \<Rightarrow> nat \<Rightarrow> store \<Rightarrow> store" where
  \<comment> \<open>\<open>UPDATE lives SET status = "0", data_fim = NOW() WHERE codigo = ?\<close>\<close>
  "finalize_live now liveId db =
     update_lives (\<lambda>r. l_codigo r = liveId) (\<lambda>r. r\<lparr>l_status := ''0'', l_data_fim := Some now\<rparr>) db"

definition stopLive :: "ssh_transport \<Rightarrow> datetime \<Rightarrow> module_state \<Rightarrow> req_user \<Rightarrow> nat
    \<Rightarrow> stop_live_reply \<times> module_state \<times> remote_action list" where
  "stopLive executeCommand now st user liveId =
     (let userId = u_id user;
          userLogin = userLogin_of user userId;
          db = ms_db st
      in case filter (\<lambda>r. l_codigo r = liveId \<and> l_codigo_stm r = userId) (lives db) of
           [] \<Rightarrow> (StopLive_404_nao_encontrada, st, [])
         | live # _ \<Rightarrow>
             let serverId = servidor_of db userId;
                 command = ''echo OK; '' @ killCommand userLogin liveId
             in case executeCommand serverId command of
                  SSH_throws message \<Rightarrow>
                    (StopLive_500_erro_ao_finalizar message, st, [SSH_executeCommand serverId command])
                | SSH_result _ \<Rightarrow>
                    (StopLive_200_finalizada liveId (l_tipo live),
                     \<lparr> ms_db = finalize_live now liveId db,
                       activeTransmissions = registry_delete (userId, liveId) (activeTransmissions st) \<rparr>,
                     [SSH_executeCommand serverId command]))"

section \<open>GET /api/streaming/status\<close>

text \<open>
  \<^verbatim>\<open>
  // Verificar transmissoes de playlist ou lives, independente do status
  const [activeRows] = await db.execute(`SELECT t.*, p.nome as playlist_nome FROM transmissoes t
       LEFT JOIN playlists p ON t.codigo_playlist = p.id
       WHERE t.codigo_stm = ? ORDER BY t.data_inicio DESC LIMIT 1`, [userId]);
  if (activeRows.length > 0) {
    const activeTransmission = activeRows[0]; ...
    return res.json({ success: true, is_live: true, stream_type: 'playlist',
      transmission: { id: activeTransmission.codigo, ..., stats: { ..., isActive: true } } });
  }
  // Se nao tiver playlist ativa, verificar OBS/lives
  const [obsRows] = await db.execute(`SELECT * FROM lives WHERE codigo_stm = ?
       ORDER BY data_inicio DESC LIMIT 1`, [userId]);
  if (obsRows.length > 0) {
    const obsLive = obsRows[0]; ...
    return res.json({ success: true, is_live: true, stream_type: 'obs',
      obs_stream: { id: obsLive.codigo, ..., recording: false, isActive: true } });
  }
  res.json({ success: true, is_live: false, stream_type: null, transmission: null });
  \<close>
  Neither query has a condition on \<open>status\<close>. Of the response the model keeps the
  flags and the id of the row reported; the viewer count (a random number), the uptime
  text and the URLs are left out.
\<close>

record status_reply =
  sr_success :: bool
  sr_is_live :: bool
  sr_stream_type :: "string option"
  sr_id :: "nat option"
  sr_isActive :: "bool option"

definition status :: "store \<Rightarrow> req_user \<Rightarrow> status_reply" where
  "status db user =
     (let userId = effective_id user in
      case order_desc_limit1 t_data_inicio (filter (\<lambda>t. t_codigo_stm t = userId) (transmissoes db)) of
        Some activeTransmission \<Rightarrow>
          \<lparr> sr_success = True, sr_is_live = True, sr_stream_type = Some ''playlist'',
            sr_id = Some (t_codigo activeTransmission), sr_isActive = Some True \<rparr>
      | None \<Rightarrow>
          (case order_desc_limit1 l_data_inicio (filter (\<lambda>r. l_codigo_stm r = userId) (lives db)) of
             Some obsLive \<Rightarrow>
               \<lparr> sr_success = True, sr_is_live = True, sr_stream_type = Some ''obs'',
                 sr_id = Some (l_codigo obsLive), sr_isActive = Some True \<rparr>
           | None \<Rightarrow>
               \<lparr> sr_success = True, sr_is_live = False, sr_stream_type = None,
                 sr_id = None, sr_isActive = None \<rparr>))"

section \<open>process.on('SIGINT') and process.on('SIGTERM')\<close>

text \<open>
  The two handlers have the same body:
  \<^verbatim>\<open>
  for (const [key, transmissionData] of activeTransmissions) {
    try {
      const [userId, liveId] = key.split('_');
      const [userRows] = await db.execute('SELECT usuario, email FROM streamings WHERE codigo_cliente = ? LIMIT 1', [userId]);
      if (userRows.length > 0) {
        const userLogin = userRows[0].usuario || userRows[0].email.split('@')[0];
        const serverId = serverRows.length > 0 ? serverRows[0].servidor_id : 1;
        const killCommand = `screen -ls | grep -o '[0-9]*\\.${userLogin}_${liveId}\\>' | xargs -I{} screen -X -S {} quit`;
        await SSHManager.executeCommand(serverId, `echo OK; ${killCommand}`);
        await db.execute('UPDATE lives SET status = "0", data_fim = NOW() WHERE codigo = ?', [liveId]);
      }
    } catch (error) { console.error(...); }
  }
  activeTransmissions.clear();
  process.exit(0);
  \<close>
  The loop runs over the registry, not over the rows of the store. An entry whose owner
  has no \<open>streamings\<close> row is passed over; an exception inside one round (the transport
  throwing, or \<open>split\<close> on a null email) ends that round only. \<open>now\<close> gives the reading
  of \<open>NOW()\<close> in the round of an entry. The result is the state in which
  \<open>process.exit(0)\<close> is called.
\<close>

definition sweep_login :: "streaming \<Rightarrow> string option" where
  \<comment> \<open>\<open>usuario || email.split('@')[0]\<close>; \<open>None\<close> is the TypeError of a null email\<close>
  "sweep_login u =
     (if truthy_str (s_usuario u) then s_usuario u
      else case s_email u of None \<Rightarrow> None | Some e \<Rightarrow> Some (before_at e))"

fun sweep :: "ssh_transport \<Rightarrow> (nat \<times> nat \<Rightarrow> datetime) \<Rightarrow> store \<Rightarrow> (nat \<times> nat) list
    \<Rightarrow> store \<times> remote_action list" where
  "sweep executeCommand now db [] = (db, [])"
| "sweep executeCommand now db ((userId, liveId) # rest) =
     (case filter (\<lambda>s. s_codigo_cliente s = userId) (streamings db) of
        [] \<Rightarrow> sweep executeCommand now db rest
      | u # _ \<Rightarrow>
          (case sweep_login u of
             None \<Rightarrow> sweep executeCommand now db rest
           | Some userLogin \<Rightarrow>
               let serverId = servidor_of db userId;
                   command = ''echo OK; '' @ killCommand userLogin liveId
               in case executeCommand serverId command of
                    SSH_throws _ \<Rightarrow>
                      (case sweep executeCommand now db rest of
                         (db', acts) \<Rightarrow> (db', SSH_executeCommand serverId command # acts))
                  | SSH_result _ \<Rightarrow>
                      (case sweep executeCommand now (finalize_live (now (userId, liveId)) liveId db) rest of
                         (db', acts) \<Rightarrow> (db', SSH_executeCommand serverId command # acts))))"

definition on_SIGINT :: "ssh_transport \<Rightarrow> (nat \<times> nat \<Rightarrow> datetime) \<Rightarrow> module_state
    \<Rightarrow> module_state \<times> remote_action list" where
  "on_SIGINT executeCommand now st =
     (case sweep executeCommand now (ms_db st) (activeTransmissions st) of
        (db', acts) \<Rightarrow> (\<lparr> ms_db = db', activeTransmissions = [] \<rparr>, acts))"

section \<open>WowzaStreamingService: the calls to the media server\<close>

text \<open>
  Every method of the class makes one \<open>fetch\<close> with an options object that names the
  HTTP method and a \<open>timeout\<close> in milliseconds, inside a \<open>try\<close>. The model of a
  method is the request it sends and the value it returns for each outcome of the call:
  \<open>Fetch_throws\<close> is an exception inside the \<open>try\<close> (connection error, or the
  timeout expiring, which makes \<open>fetch\<close> reject), \<open>Response_not_ok\<close> an answer whose
  \<open>response.ok\<close> is false, with its status and text, and \<open>Response_ok\<close> an answer with
  \<open>response.ok\<close> true, with the parsed body where the method reads it. Paths are
  relative to \<open>this.baseUrl\<close>; the Authorization and Content-Type headers, the same
  in every call, are left out.
\<close>

datatype http_method = GET | POST | PUT

datatype request_body =
    No_body
  | Application_config string int
  | Stream_config string string
  | Push_config string string string

record http_request =
  rq_method :: http_method
  rq_path :: string
  rq_body :: request_body
  rq_timeout :: nat

datatype 'a fetch_outcome = Fetch_throws string | Response_not_ok nat string | Response_ok 'a

record simple_result =
  r_success :: bool
  r_error :: "string option"

definition applications_path :: string where
  "applications_path = ''/v2/servers/_defaultServer_/applications''"

definition incomingstreams_path :: "string \<Rightarrow> string" where
  "incomingstreams_path application =
     ''/v2/servers/_defaultServer_/vhosts/_defaultVHost_/applications/'' @ application
       @ ''/instances/_definst_/incomingstreams''"

definition the_application :: string where
  \<comment> \<open>\<open>this.application = 'live'\<close>\<close>
  "the_application = ''live''"

subsection \<open>testConnection, checkApplicationExists, createUserApplication\<close>

record connection_test =
  ct_success :: bool
  ct_status :: "nat option"
  ct_error :: "string option"

definition testConnection_request :: http_request where
  "testConnection_request =
     \<lparr> rq_method = GET, rq_path = ''/v2/servers/_defaultServer_/status'', rq_body = No_body,
       rq_timeout = 10000 \<rparr>"

definition testConnection :: "nat fetch_outcome \<Rightarrow> connection_test" where
  \<comment> \<open>the body is not read; an answer with \<open>response.ok\<close> carries its status here\<close>
  "testConnection outcome =
     (case outcome of
        Response_ok st \<Rightarrow> \<lparr> ct_success = True, ct_status = Some st, ct_error = None \<rparr>
      | Response_not_ok st _ \<Rightarrow> \<lparr> ct_success = False, ct_status = Some st, ct_error = None \<rparr>
      | Fetch_throws message \<Rightarrow> \<lparr> ct_success = False, ct_status = None, ct_error = Some message \<rparr>)"

definition checkApplicationExists_request :: "string \<Rightarrow> http_request" where
  "checkApplicationExists_request userLogin =
     \<lparr> rq_method = GET, rq_path = applications_path @ ''/'' @ userLogin, rq_body = No_body,
       rq_timeout = 10000 \<rparr>"

definition checkApplicationExists :: "unit fetch_outcome \<Rightarrow> bool" where
  "checkApplicationExists outcome =
     (case outcome of Response_ok _ \<Rightarrow> True | Response_not_ok _ _ \<Rightarrow> False | Fetch_throws _ \<Rightarrow> False)"

definition createUserApplication_request :: "string \<Rightarrow> user_config \<Rightarrow> http_request" where
  \<comment> \<open>of the body: the application's name and \<open>userConfig.bitrate || 2500\<close>\<close>
  "createUserApplication_request userLogin userConfig =
     \<lparr> rq_method = POST, rq_path = applications_path,
       rq_body = Application_config userLogin (or_num (uc_bitrate userConfig) 2500),
       rq_timeout = 15000 \<rparr>"

definition createUserApplication :: "unit fetch_outcome \<Rightarrow> bool" where
  "createUserApplication outcome =
     (case outcome of Response_ok _ \<Rightarrow> True | Response_not_ok _ _ \<Rightarrow> False | Fetch_throws _ \<Rightarrow> False)"

subsection \<open>startStreamPublisher, configurePushPublish, stopStream\<close>

definition result_of_action :: "unit fetch_outcome \<Rightarrow> simple_result" where
  \<comment> \<open>\<open>if (response.ok) return { success: true }; else return { success: false, error: errorText };\<close>
      and \<open>catch (error) { return { success: false, error: error.message }; }\<close>\<close>
  "result_of_action outcome =
     (case outcome of
        Response_ok _ \<Rightarrow> \<lparr> r_success = True, r_error = None \<rparr>
      | Response_not_ok _ errorText \<Rightarrow> \<lparr> r_success = False, r_error = Some errorText \<rparr>
      | Fetch_throws message \<Rightarrow> \<lparr> r_success = False, r_error = Some message \<rparr>)"

definition startStreamPublisher_request :: "string \<Rightarrow> string \<Rightarrow> http_request" where
  \<comment> \<open>of the body: \<open>connectAppName\<close>/\<open>streamName\<close> and the file; \<open>sessionName\<close> carries \<open>Date.now()\<close>\<close>
  "startStreamPublisher_request userLogin smilFile =
     \<lparr> rq_method = PUT,
       rq_path = applications_path @ ''/'' @ userLogin @ ''/streamfiles/'' @ smilFile @ ''/actions/connect'',
       rq_body = Stream_config userLogin smilFile,
       rq_timeout = 15000 \<rparr>"

definition startStreamPublisher :: "unit fetch_outcome \<Rightarrow> simple_result" where
  \<comment> \<open>on \<open>response.ok\<close> the method waits 3 seconds before it returns\<close>
  "startStreamPublisher outcome = result_of_action outcome"

record platform_info =
  pi_codigo :: string
  pi_nome :: string
  pi_rtmp_base_url :: string

record push_platform =
  pp_platform :: platform_info
  pp_rtmp_url :: "string option"
  pp_stream_key :: string

definition configurePushPublish_request :: "string \<Rightarrow> push_platform \<Rightarrow> http_request" where
  \<comment> \<open>of the body: \<open>entryName\<close>, \<open>host: platform.rtmp_url || platform.platform.rtmp_base_url\<close>
      and \<open>streamFile\<close>; the other fields are constants or the user's login\<close>
  "configurePushPublish_request userLogin platform =
     \<lparr> rq_method = POST,
       rq_path = applications_path @ ''/'' @ userLogin @ ''/pushpublish/mapentries'',
       rq_body = Push_config (pi_codigo (pp_platform platform))
                   (case pp_rtmp_url platform of
                      None \<Rightarrow> pi_rtmp_base_url (pp_platform platform)
                    | Some u \<Rightarrow> if u \<noteq> [] then u else pi_rtmp_base_url (pp_platform platform))
                   (pp_stream_key platform),
       rq_timeout = 10000 \<rparr>"

definition configurePushPublish :: "unit fetch_outcome \<Rightarrow> simple_result" where
  "configurePushPublish outcome = result_of_action outcome"

definition login_of_streamId :: "string \<Rightarrow> string" where
  \<comment> \<open>\<open>streamId.split('_')[1] || 'unknown'\<close>\<close>
  "login_of_streamId streamId =
     (if CHR ''_'' \<in> set streamId then
        (let second = takeWhile (\<lambda>c. c \<noteq> CHR ''_'') (drop 1 (dropWhile (\<lambda>c. c \<noteq> CHR ''_'') streamId))
         in if second \<noteq> [] then second else ''unknown'')
      else ''unknown'')"

definition smil_action_request :: "string \<Rightarrow> string \<Rightarrow> http_request" where
  "smil_action_request streamId action =
     \<lparr> rq_method = PUT,
       rq_path = applications_path @ ''/'' @ login_of_streamId streamId
                 @ ''/streamfiles/playlists_agendamentos.smil/actions/'' @ action,
       rq_body = No_body,
       rq_timeout = 10000 \<rparr>"

definition stopStream_request :: "string \<Rightarrow> http_request" where
  "stopStream_request streamId = smil_action_request streamId ''disconnect''"

definition stopStream :: "unit fetch_outcome \<Rightarrow> simple_result" where
  "stopStream outcome = result_of_action outcome"

subsection \<open>pauseSMILStream, resumeSMILStream, stopOBSStream\<close>

definition result_of_toggle :: "unit fetch_outcome \<Rightarrow> simple_result" where
  \<comment> \<open>\<open>return { success: response.ok };\<close> and \<open>catch (error) { return { success: false, error: error.message }; }\<close>\<close>
  "result_of_toggle outcome =
     (case outcome of
        Response_ok _ \<Rightarrow> \<lparr> r_success = True, r_error = None \<rparr>
      | Response_not_ok _ _ \<Rightarrow> \<lparr> r_success = False, r_error = None \<rparr>
      | Fetch_throws message \<Rightarrow> \<lparr> r_success = False, r_error = Some message \<rparr>)"

definition pauseSMILStream_request :: "string \<Rightarrow> http_request" where
  "pauseSMILStream_request streamId = smil_action_request streamId ''pause''"

definition pauseSMILStream :: "unit fetch_outcome \<Rightarrow> simple_result" where
  "pauseSMILStream outcome = result_of_toggle outcome"

definition resumeSMILStream_request :: "string \<Rightarrow> http_request" where
  "resumeSMILStream_request streamId = smil_action_request streamId ''play''"

definition resumeSMILStream :: "unit fetch_outcome \<Rightarrow> simple_result" where
  "resumeSMILStream outcome = result_of_toggle outcome"

definition stopOBSStream_request :: "string \<Rightarrow> http_request" where
  "stopOBSStream_request userLogin =
     \<lparr> rq_method = PUT,
       rq_path = applications_path @ ''/'' @ the_application @ ''/instances/_definst_/incomingstreams/''
                 @ userLogin @ ''_live/actions/disconnectStream'',
       rq_body = No_body,
       rq_timeout = 10000 \<rparr>"

definition stopOBSStream :: "unit fetch_outcome \<Rightarrow> simple_result" where
  "stopOBSStream outcome = result_of_action outcome"

subsection \<open>Statistics and incoming streams\<close>

text \<open>
  Counts, rates and durations of the media server's JSON are non-negative integers; a
  field that is absent is \<open>None\<close>. Of an incoming stream the model keeps the name and
  the three numbers the methods read; the \<open>streamInfo\<close> part of the statistics is left
  out.
\<close>

definition or_nat :: "nat option \<Rightarrow> nat \<Rightarrow> nat" where
  "or_nat x d = (case x of None \<Rightarrow> d | Some v \<Rightarrow> if v = 0 then d else v)"

definition pad2 :: "string \<Rightarrow> string" where
  \<comment> \<open>\<open>padStart(2, '0')\<close>\<close>
  "pad2 s = replicate (2 - length s) CHR ''0'' @ s"

definition formatUptime :: "nat \<Rightarrow> string" where
  "formatUptime milliseconds =
     (let seconds = milliseconds div 1000;
          h = seconds div 3600;
          m = (seconds mod 3600) div 60;
          s = seconds mod 60
      in pad2 (decimal h) @ '':'' @ pad2 (decimal m) @ '':'' @ pad2 (decimal s))"

record monitoring =
  mo_connectionsCurrent :: "nat option"
  mo_messagesInBytesRate :: "nat option"
  mo_timeRunning :: "nat option"

record stream_stats =
  ss_viewers :: nat
  ss_bitrate :: nat
  ss_uptime :: string
  ss_isActive :: bool

definition no_stats :: stream_stats where
  "no_stats = \<lparr> ss_viewers = 0, ss_bitrate = 0, ss_uptime = ''00:00:00'', ss_isActive = False \<rparr>"

definition getStreamStats_request :: "string \<Rightarrow> http_request" where
  "getStreamStats_request streamId =
     \<lparr> rq_method = GET,
       rq_path = applications_path @ ''/'' @ login_of_streamId streamId @ ''/monitoring/current'',
       rq_body = No_body, rq_timeout = 10000 \<rparr>"

definition getStreamStats :: "monitoring fetch_outcome \<Rightarrow> stream_stats" where
  "getStreamStats outcome =
     (case outcome of
        Response_ok data \<Rightarrow>
          \<lparr> ss_viewers = or_nat (mo_connectionsCurrent data) 0,
            ss_bitrate = or_nat (mo_messagesInBytesRate data) 0,
            ss_uptime = formatUptime (or_nat (mo_timeRunning data) 0),
            ss_isActive = (case mo_connectionsCurrent data of None \<Rightarrow> False | Some c \<Rightarrow> c > 0) \<rparr>
      | Response_not_ok _ _ \<Rightarrow> no_stats
      | Fetch_throws _ \<Rightarrow> no_stats)"

record incoming_stream =
  is_name :: string
  is_connectionsCurrent :: "nat option"
  is_messagesInBytesRate :: "nat option"
  is_timeRunning :: "nat option"

definition incomingstreams_request :: http_request where
  \<comment> \<open>the request of getOBSStreamStats, checkUserIncomingStreams and listAllIncomingStreams\<close>
  "incomingstreams_request =
     \<lparr> rq_method = GET, rq_path = incomingstreams_path the_application, rq_body = No_body,
       rq_timeout = 10000 \<rparr>"

definition service_login :: "streaming list \<Rightarrow> nat \<Rightarrow> string" where
  \<comment> \<open>\<open>userRows.length > 0 && userRows[0].usuario ? userRows[0].usuario :
        (userRows[0]?.email ? userRows[0].email.split('@')[0] : `user_${userId}`)\<close>\<close>
  "service_login userRows userId =
     (case userRows of
        [] \<Rightarrow> ''user_'' @ decimal userId
      | u # _ \<Rightarrow>
          (case s_usuario u of
             None \<Rightarrow> login_from_email (s_email u) userId
           | Some n \<Rightarrow> if n \<noteq> [] then n else login_from_email (s_email u) userId))"

text \<open>
  \<^verbatim>\<open>
  const userStream = data.incomingStreams?.find(stream =>
    stream.name === `${userLogin}_live` ||
    stream.name === userLogin ||
    stream.name.includes(userLogin)
  );
  \<close>
  and, in checkUserIncomingStreams, \<open>data.incomingStreams?.filter(\<dots>) || []\<close> with the
  same predicate.
\<close>

definition matches_user :: "string \<Rightarrow> incoming_stream \<Rightarrow> bool" where
  "matches_user userLogin stream =
     (is_name stream = userLogin @ ''_live''
      \<or> is_name stream = userLogin
      \<or> js_includes (is_name stream) userLogin)"

definition findUserStream :: "string \<Rightarrow> incoming_stream list option \<Rightarrow> incoming_stream option" where
  "findUserStream userLogin incomingStreams =
     (case incomingStreams of
        None \<Rightarrow> None
      | Some streams \<Rightarrow> find (matches_user userLogin) streams)"

definition filterUserStreams :: "string \<Rightarrow> incoming_stream list option \<Rightarrow> incoming_stream list" where
  "filterUserStreams userLogin incomingStreams =
     (case incomingStreams of
        None \<Rightarrow> []
      | Some streams \<Rightarrow> filter (matches_user userLogin) streams)"

record obs_stats =
  os_isLive :: bool
  os_isActive :: bool
  os_streamName :: string
  os_viewers :: nat
  os_bitrate :: nat
  os_uptime :: string
  os_recording :: bool

definition obs_offline :: "string \<Rightarrow> obs_stats" where
  "obs_offline userLogin =
     \<lparr> os_isLive = False, os_isActive = False, os_streamName = userLogin @ ''_live'',
       os_viewers = 0, os_bitrate = 0, os_uptime = ''00:00:00'', os_recording = False \<rparr>"

definition getOBSStreamStats :: "streaming list \<Rightarrow> nat \<Rightarrow> incoming_stream list option fetch_outcome
    \<Rightarrow> string + obs_stats" where
  \<comment> \<open>\<open>Inl\<close> is an exception thrown out of the method: its \<open>catch\<close> block reads
      \<open>userLogin\<close>, a \<open>const\<close> of the \<open>try\<close> block, which is unbound there\<close>
  "getOBSStreamStats userRows userId outcome =
     (let userLogin = service_login userRows userId in
      case outcome of
        Response_ok incomingStreams \<Rightarrow>
          (case findUserStream userLogin incomingStreams of
             Some userStream \<Rightarrow>
               Inr \<lparr> os_isLive = True, os_isActive = True, os_streamName = is_name userStream,
                     os_viewers = or_nat (is_connectionsCurrent userStream) 0,
                     os_bitrate = or_nat (is_messagesInBytesRate userStream) 0 div 1000,
                     os_uptime = formatUptime (or_nat (is_timeRunning userStream) 0),
                     os_recording = False \<rparr>
           | None \<Rightarrow> Inr (obs_offline userLogin))
      | Response_not_ok _ _ \<Rightarrow> Inr (obs_offline userLogin)
      | Fetch_throws _ \<Rightarrow> Inl ''userLogin is not defined'')"

record incoming_check =
  ic_success :: bool
  ic_hasActiveStreams :: bool
  ic_activeStreams :: "incoming_stream list"
  ic_totalStreams :: nat
  ic_userLogin :: string
  ic_error :: "string option"

definition checkUserIncomingStreams :: "streaming list \<Rightarrow> nat \<Rightarrow> incoming_stream list option fetch_outcome
    \<Rightarrow> incoming_check" where
  "checkUserIncomingStreams userRows userId outcome =
     (let userLogin = service_login userRows userId in
      case outcome of
        Response_ok incomingStreams \<Rightarrow>
          (let userStreams = filterUserStreams userLogin incomingStreams in
           \<lparr> ic_success = True, ic_hasActiveStreams = (length userStreams > 0),
             ic_activeStreams = userStreams,
             ic_totalStreams = (case incomingStreams of None \<Rightarrow> 0 | Some streams \<Rightarrow> length streams),
             ic_userLogin = userLogin, ic_error = None \<rparr>)
      | Response_not_ok st _ \<Rightarrow>
          \<lparr> ic_success = False, ic_hasActiveStreams = False, ic_activeStreams = [],
            ic_totalStreams = 0, ic_userLogin = userLogin, ic_error = Some (''HTTP '' @ decimal st) \<rparr>
      | Fetch_throws message \<Rightarrow>
          \<lparr> ic_success = False, ic_hasActiveStreams = False, ic_activeStreams = [],
            ic_totalStreams = 0, ic_userLogin = ''user_'' @ decimal userId, ic_error = Some message \<rparr>)"

record 'a listing =
  li_success :: bool
  li_items :: "'a list"
  li_error :: "string option"

definition listAllIncomingStreams :: "incoming_stream list option fetch_outcome \<Rightarrow> incoming_stream listing" where
  "listAllIncomingStreams outcome =
     (case outcome of
        Response_ok incomingStreams \<Rightarrow>
          \<lparr> li_success = True,
            li_items = (case incomingStreams of None \<Rightarrow> [] | Some streams \<Rightarrow> streams),
            li_error = None \<rparr>
      | Response_not_ok st _ \<Rightarrow>
          \<lparr> li_success = False, li_items = [], li_error = Some (''HTTP '' @ decimal st) \<rparr>
      | Fetch_throws message \<Rightarrow> \<lparr> li_success = False, li_items = [], li_error = Some message \<rparr>)"

definition listRecordings_request :: "string \<Rightarrow> http_request" where
  "listRecordings_request userLogin =
     \<lparr> rq_method = GET, rq_path = applications_path @ ''/'' @ userLogin @ ''/dvrstores'',
       rq_body = No_body, rq_timeout = 10000 \<rparr>"

definition listRecordings :: "string list option fetch_outcome \<Rightarrow> string listing" where
  \<comment> \<open>the items are the entries of \<open>data.dvrConverterStores\<close>\<close>
  "listRecordings outcome =
     (case outcome of
        Response_ok stores \<Rightarrow>
          \<lparr> li_success = True, li_items = (case stores of None \<Rightarrow> [] | Some xs \<Rightarrow> xs), li_error = None \<rparr>
      | Response_not_ok _ _ \<Rightarrow>
          \<lparr> li_success = False, li_items = [], li_error = Some ''Erro ao listar gravacoes'' \<rparr>
      | Fetch_throws message \<Rightarrow> \<lparr> li_success = False, li_items = [], li_error = Some message \<rparr>)"

record stream_details =
  sd_success :: bool
  sd_stream :: "incoming_stream option"
  sd_isActive :: bool
  sd_error :: "string option"

definition getStreamDetails_request :: "string \<Rightarrow> http_request" where
  "getStreamDetails_request streamName =
     \<lparr> rq_method = GET, rq_path = incomingstreams_path the_application @ ''/'' @ streamName,
       rq_body = No_body, rq_timeout = 10000 \<rparr>"

definition getStreamDetails :: "incoming_stream fetch_outcome \<Rightarrow> stream_details" where
  "getStreamDetails outcome =
     (case outcome of
        Response_ok data \<Rightarrow>
          \<lparr> sd_success = True, sd_stream = Some data, sd_isActive = True, sd_error = None \<rparr>
      | Response_not_ok st _ \<Rightarrow>
          \<lparr> sd_success = False, sd_stream = None, sd_isActive = False,
            sd_error = Some (''HTTP '' @ decimal st) \<rparr>
      | Fetch_throws message \<Rightarrow>
          \<lparr> sd_success = False, sd_stream = None, sd_isActive = False, sd_error = Some message \<rparr>)"

subsection \<open>The calls of the class, one by one\<close>

datatype wowza_operation =
    Op_testConnection
  | Op_checkApplicationExists string
  | Op_createUserApplication string user_config
  | Op_startStreamPublisher string string
  | Op_configurePushPublish string push_platform
  | Op_stopStream string
  | Op_getStreamStats string
  | Op_getOBSStreamStats
  | Op_checkUserIncomingStreams
  | Op_listAllIncomingStreams
  | Op_getStreamDetails string
  | Op_stopOBSStream string
  | Op_pauseSMILStream string
  | Op_resumeSMILStream string
  | Op_listRecordings string

fun request_of :: "wowza_operation \<Rightarrow> http_request" where
  "request_of Op_testConnection = testConnection_request"
| "request_of (Op_checkApplicationExists userLogin) = checkApplicationExists_request userLogin"
| "request_of (Op_createUserApplication userLogin userConfig) = createUserApplication_request userLogin userConfig"
| "request_of (Op_startStreamPublisher userLogin smilFile) = startStreamPublisher_request userLogin smilFile"
| "request_of (Op_configurePushPublish userLogin platform) = configurePushPublish_request userLogin platform"
| "request_of (Op_stopStream streamId) = stopStream_request streamId"
| "request_of (Op_getStreamStats streamId) = getStreamStats_request streamId"
| "request_of Op_getOBSStreamStats = incomingstreams_request"
| "request_of Op_checkUserIncomingStreams = incomingstreams_request"
| "request_of Op_listAllIncomingStreams = incomingstreams_request"
| "request_of (Op_getStreamDetails streamName) = getStreamDetails_request streamName"
| "request_of (Op_stopOBSStream userLogin) = stopOBSStream_request userLogin"
| "request_of (Op_pauseSMILStream streamId) = pauseSMILStream_request streamId"
| "request_of (Op_resumeSMILStream streamId) = resumeSMILStream_request streamId"
| "request_of (Op_listRecordings userLogin) = listRecordings_request userLogin"

definition mutating :: "http_request \<Rightarrow> bool" where
  \<comment> \<open>a call that changes the media server: every method but GET\<close>
  "mutating rq = (rq_method rq \<noteq> GET)"

definition spec_timeout :: "http_request \<Rightarrow> nat" where
  \<comment> \<open>the timeout in the specification's words: 10 s for reads, 15 s for mutating calls\<close>
  "spec_timeout rq = (if mutating rq then 15000 else 10000)"

definition provisioning :: "wowza_operation \<Rightarrow> bool" where
  \<comment> \<open>the two calls that create the application and connect the stream publisher\<close>
  "provisioning op =
     (case op of
        Op_createUserApplication _ _ \<Rightarrow> True
      | Op_startStreamPublisher _ _ \<Rightarrow> True
      | _ \<Rightarrow> False)"

subsection \<open>startSMILStream\<close>

text \<open>
  \<^verbatim>\<open>
  async startSMILStream(config) {
    try {
      const { streamId, userId, userLogin, userConfig, playlistId, smilFile, platforms } = config;
      const appExists = await this.checkApplicationExists(userLogin);
      if (!appExists) { await this.createUserApplication(userLogin, userConfig); }
      const streamResult = await this.startStreamPublisher(userLogin, smilFile);
      if (!streamResult.success) {
        throw new Error(`Erro ao iniciar stream publisher: ${streamResult.error}`);
      }
      if (platforms && platforms.length > 0) {
        for (const platform of platforms) {
          try {
            await this.configurePushPublish(userLogin, platform);
          } catch (platformError) {
            console.warn(`Erro ao configurar plataforma ${platform.platform.nome}:`, platformError.message);
          }
        }
      }
      return { success: true, streamId,
               data: { rtmpUrl: ..., streamName: userLogin, hlsUrl: ..., smilUrl: ...,
                       bitrate: userConfig.bitrate || 2500 } };
    } catch (error) {
      return { success: false, error: error.message };
    }
  }
  \<close>
  The value \<open>configurePushPublish\<close> returns for a target is not bound to a name: the loop
  drops it, and the object returned has no field for the targets. A push target is an
  object with its \<open>platform\<close> descriptor, as the type \<open>push_platform\<close> has it, so
  \<open>configurePushPublish\<close>, whose whole body is inside its own \<open>try\<close>, returns for every
  outcome and the \<open>catch\<close> of the loop is not entered.

  The environment gives the outcome of each call of one run; the push-publish calls are
  numbered from 0 in the order they are made. The result is the object returned and the
  requests sent, in order.
\<close>

record smil_config =
  sc_streamId :: string
  sc_userLogin :: string
  sc_userConfig :: user_config
  sc_smilFile :: string
  sc_platforms :: "push_platform list option"

record smil_data =
  sm_rtmpUrl :: string
  sm_streamName :: string
  sm_hlsUrl :: string
  sm_smilUrl :: string
  sm_bitrate :: int

record smil_result =
  sm_success :: bool
  sm_streamId :: "string option"
  sm_data :: "smil_data option"
  sm_error :: "string option"

record wowza_env =
  we_checkApplication :: "unit fetch_outcome"
  we_createApplication :: "unit fetch_outcome"
  we_connect :: "unit fetch_outcome"
  we_pushPublish :: "nat \<Rightarrow> unit fetch_outcome"

fun push_all :: "(nat \<Rightarrow> unit fetch_outcome) \<Rightarrow> string \<Rightarrow> nat \<Rightarrow> push_platform list
    \<Rightarrow> (http_request \<times> simple_result) list" where
  \<comment> \<open>the loop over the targets: the request sent for each and the value returned for it\<close>
  "push_all pushPublish userLogin i [] = []"
| "push_all pushPublish userLogin i (platform # rest) =
     (configurePushPublish_request userLogin platform, configurePushPublish (pushPublish i))
       # push_all pushPublish userLogin (Suc i) rest"

definition startSMILStream :: "wowza_env \<Rightarrow> smil_config \<Rightarrow> smil_result \<times> http_request list" where
  "startSMILStream env config =
     (let userLogin = sc_userLogin config;
          appExists = checkApplicationExists (we_checkApplication env);
          provision =
            checkApplicationExists_request userLogin
              # (if appExists then [] else [createUserApplication_request userLogin (sc_userConfig config)]);
          streamResult = startStreamPublisher (we_connect env);
          connect = startStreamPublisher_request userLogin (sc_smilFile config)
      in if \<not> r_success streamResult then
           (\<lparr> sm_success = False, sm_streamId = None, sm_data = None,
              sm_error = Some (''Erro ao iniciar stream publisher: ''
                               @ (case r_error streamResult of None \<Rightarrow> ''undefined'' | Some e \<Rightarrow> e)) \<rparr>,
            provision @ [connect])
         else
           let pushes =
                 (case sc_platforms config of
                    None \<Rightarrow> []
                  | Some platforms \<Rightarrow> push_all (we_pushPublish env) userLogin 0 platforms)
           in (\<lparr> sm_success = True, sm_streamId = Some (sc_streamId config),
                 sm_data = Some
                   \<lparr> sm_rtmpUrl = ''rtmp://stmv1.udicast.com:1935/'' @ userLogin,
                     sm_streamName = userLogin,
                     sm_hlsUrl = ''http://stmv1.udicast.com:80/'' @ userLogin @ ''/'' @ userLogin
                                 @ ''/playlist.m3u8'',
                     sm_smilUrl = ''http://stmv1.udicast.com:80/'' @ userLogin @ ''/smil:''
                                  @ sc_smilFile config @ ''/playlist.m3u8'',
                     sm_bitrate = or_num (uc_bitrate (sc_userConfig config)) 2500 \<rparr>,
                 sm_error = None \<rparr>,
               provision @ [connect] @ map fst pushes))"

section \<open>Predicates used in the statements\<close>

definition start_request_valid :: "store \<Rightarrow> nat \<Rightarrow> start_body \<Rightarrow> bool" where
  \<comment> \<open>the request passes the three checks that precede the active-transmission query\<close>
  "start_request_valid db userId body =
     (case (sb_titulo body, sb_playlist_id body) of
        (Some titulo, Some playlist_id) \<Rightarrow>
          titulo \<noteq> [] \<and> playlist_id \<noteq> 0
          \<and> (case filter (\<lambda>p. p_id p = playlist_id \<and> owned_by db userId (p_codigo_stm p)) (playlists db) of
                [] \<Rightarrow> False
              | playlist # _ \<Rightarrow> p_total_videos playlist \<noteq> 0)
      | _ \<Rightarrow> False)"

definition validation_error :: "start_reply \<Rightarrow> bool" where
  "validation_error r =
     (r = Start_400_titulo_playlist_obrigatorios \<or> r = Start_404_playlist_nao_encontrada
      \<or> r = Start_400_playlist_sem_videos)"

definition live_fields_present :: "start_live_body \<Rightarrow> bool" where
  "live_fields_present body =
     (truthy_str (lb_servidor_rtmp body) \<and> truthy_str (lb_servidor_rtmp_chave body)
      \<and> truthy_str (lb_data_fim body))"

definition owns_live :: "store \<Rightarrow> req_user \<Rightarrow> nat \<Rightarrow> bool" where
  "owns_live db user liveId = (\<exists>r\<in>set (lives db). l_codigo r = liveId \<and> l_codigo_stm r = u_id user)"

definition stop_command :: "req_user \<Rightarrow> nat \<Rightarrow> string" where
  "stop_command user liveId = ''echo OK; '' @ killCommand (userLogin_of user (u_id user)) liveId"

definition sweep_command :: "store \<Rightarrow> nat \<times> nat \<Rightarrow> (nat \<times> string) option" where
  \<comment> \<open>the server and the command the sweep sends for a registry entry, if it gets that far\<close>
  "sweep_command db e =
     (case filter (\<lambda>s. s_codigo_cliente s = fst e) (streamings db) of
        [] \<Rightarrow> None
      | u # _ \<Rightarrow>
          (case sweep_login u of
             None \<Rightarrow> None
           | Some userLogin \<Rightarrow>
               Some (servidor_of db (fst e), ''echo OK; '' @ killCommand userLogin (snd e))))"

definition stop_accepted :: "ssh_transport \<Rightarrow> store \<Rightarrow> nat \<times> nat \<Rightarrow> bool" where
  \<comment> \<open>the sweep sends a command for the entry and the transport does not throw\<close>
  "stop_accepted executeCommand db e =
     (case sweep_command db e of
        None \<Rightarrow> False
      | Some (serverId, command) \<Rightarrow>
          (case executeCommand serverId command of SSH_throws _ \<Rightarrow> False | SSH_result _ \<Rightarrow> True))"

definition accepted_rounds :: "ssh_transport \<Rightarrow> store \<Rightarrow> (nat \<times> nat) list \<Rightarrow> nat \<Rightarrow> (nat \<times> nat) list" where
  \<comment> \<open>the registry entries of a live whose round reaches the UPDATE, in the order of the loop\<close>
  "accepted_rounds executeCommand db reg liveId =
     filter (\<lambda>e. snd e = liveId \<and> stop_accepted executeCommand db e) reg"

definition swept_row :: "ssh_transport \<Rightarrow> (nat \<times> nat \<Rightarrow> datetime) \<Rightarrow> store \<Rightarrow> (nat \<times> nat) list
    \<Rightarrow> live \<Rightarrow> live" where
  \<comment> \<open>a row of lives after the sweep: written by the last round that reached the UPDATE for
      its live, and left as it was when no round did\<close>
  "swept_row executeCommand now db reg r =
     (case rev (accepted_rounds executeCommand db reg (l_codigo r)) of
        [] \<Rightarrow> r
      | e # _ \<Rightarrow> r\<lparr>l_status := ''0'', l_data_fim := Some (now e)\<rparr>)"

definition sweep_requests :: "store \<Rightarrow> (nat \<times> nat) list \<Rightarrow> remote_action list" where
  \<comment> \<open>one kill command for each registry entry whose owner has a login, in the order of the loop\<close>
  "sweep_requests db reg =
     concat (map (\<lambda>e. case sweep_command db e of
                          None \<Rightarrow> []
                        | Some (serverId, command) \<Rightarrow> [SSH_executeCommand serverId command]) reg)"

definition is_push_request :: "http_request \<Rightarrow> bool" where
  "is_push_request rq = (case rq_body rq of Push_config _ _ _ \<Rightarrow> True | _ \<Rightarrow> False)"

definition push_outcomes :: "wowza_env \<Rightarrow> smil_config \<Rightarrow> bool list" where
  \<comment> \<open>the \<open>success\<close> flag \<open>configurePushPublish\<close> returns for each target of a run\<close>
  "push_outcomes env config =
     (case sc_platforms config of
        None \<Rightarrow> []
      | Some platforms \<Rightarrow>
          map (\<lambda>p. r_success (snd p)) (push_all (we_pushPublish env) (sc_userLogin config) 0 platforms))"

definition findStreamForOwner_two_tier :: "string \<Rightarrow> incoming_stream list \<Rightarrow> incoming_stream option" where
  \<comment> \<open>the matching in the specification's words: an exact name match over the whole list
      first, then a name that contains the login\<close>
  "findStreamForOwner_two_tier userLogin streams =
     (case find (\<lambda>s. is_name s = userLogin @ ''_live'' \<or> is_name s = userLogin) streams of
        Some s \<Rightarrow> Some s
      | None \<Rightarrow> find (\<lambda>s. js_includes (is_name s) userLogin) streams)"

section \<open>Scenarios\<close>

definition alice :: req_user where
  "alice = \<lparr> u_id = 7, u_effective_user_id = None, u_usuario = Some ''alice'', u_email = None \<rparr>"

definition alice_live :: live where
  "alice_live =
     \<lparr> l_codigo = 1, l_codigo_stm = 7, l_data_inicio = 100, l_data_fim = Some 900,
       l_tipo = ''youtube'', l_servidor_stm = ''https://stmv1.udicast.com/alice/alice/playlist.m3u8'',
       l_servidor_live = ''rtmp://a.rtmp.youtube.com/live2/key1'', l_status = ''1'' \<rparr>"

definition alice_finalizada :: transmissao where
  "alice_finalizada =
     \<lparr> t_codigo = 4, t_codigo_stm = 7, t_titulo = ''show'', t_descricao = [], t_codigo_playlist = 5,
       t_status = ''finalizada'', t_data_inicio = 100, t_data_fim = Some 150,
       t_gravacao_ativa = 0, t_loop_playlist = 1, t_use_smil = 1 \<rparr>"

definition db_alice_idle :: store where
  \<comment> \<open>alice has a playlist and no session\<close>
  "db_alice_idle =
     \<lparr> transmissoes = [], lives = [],
       streamings = [\<lparr> s_codigo = 3, s_codigo_cliente = 7, s_usuario = Some ''alice'', s_email = None \<rparr>],
       playlists = [\<lparr> p_id = 5, p_nome = ''plist-1'', p_total_videos = 2, p_codigo_stm = 7 \<rparr>],
       folders = [] \<rparr>"

definition db_alice_live :: store where
  \<comment> \<open>alice has one external push, transmitting\<close>
  "db_alice_live = db_alice_idle\<lparr>lives := [alice_live]\<rparr>"

definition db_alice_stopped :: store where
  \<comment> \<open>alice's only session is an external push that was stopped\<close>
  "db_alice_stopped = db_alice_idle\<lparr>lives := [alice_live\<lparr>l_status := ''0'', l_data_fim := Some 150\<rparr>]\<rparr>"

definition db_alice_finalizada :: store where
  \<comment> \<open>alice's only session is a playlist transmission that was stopped\<close>
  "db_alice_finalizada = db_alice_idle\<lparr>transmissoes := [alice_finalizada]\<rparr>"

definition db_alice_ativa :: store where
  \<comment> \<open>alice has an active playlist transmission\<close>
  "db_alice_ativa = db_alice_idle\<lparr>transmissoes := [alice_finalizada\<lparr>t_status := ''ativa'', t_data_fim := None\<rparr>]\<rparr>"

definition push_body :: start_live_body where
  "push_body =
     \<lparr> lb_tipo = ''twitch'', lb_servidor_rtmp = Some ''rtmp://live-dfw.twitch.tv/app/'',
       lb_servidor_rtmp_chave = Some ''key2'',
       lb_servidor_stm = ''https://stmv1.udicast.com/alice/alice/playlist.m3u8'',
       lb_data_inicio = None, lb_data_fim = Some ''31/12/2026 23:59'',
       lb_inicio_imediato = Some ''sim'' \<rparr>"

definition playlist_body :: start_body where
  "playlist_body =
     \<lparr> sb_titulo = Some ''show'', sb_descricao = None, sb_playlist_id = Some 5,
       sb_enable_recording = False, sb_use_smil = True, sb_loop_playlist = True \<rparr>"

definition transport_counting :: "string \<Rightarrow> ssh_transport" where
  \<comment> \<open>a host that accepts every command and answers the process listing with the given text\<close>
  "transport_counting n serverId command =
     (if take 11 command = ''/bin/ps aux'' then SSH_result n else SSH_result ''OK'')"

definition transport_down :: ssh_transport where
  \<comment> \<open>a host that cannot be reached\<close>
  "transport_down serverId command = SSH_throws ''connect ECONNREFUSED''"

definition env_counting :: "string \<Rightarrow> live_env" where
  "env_counting n =
     \<lparr> le_executeCommand = transport_counting n, le_toDatetime = (\<lambda>_. 900),
       le_now_request = 200, le_now_update = 205 \<rparr>"

definition clock_300 :: "nat \<times> nat \<Rightarrow> datetime" where
  "clock_300 e = 300"

definition stream_named :: "string \<Rightarrow> incoming_stream" where
  "stream_named n =
     \<lparr> is_name = n, is_connectionsCurrent = None, is_messagesInBytesRate = None, is_timeRunning = None \<rparr>"

definition youtube_target :: push_platform where
  "youtube_target =
     \<lparr> pp_platform = \<lparr> pi_codigo = ''youtube'', pi_nome = ''YouTube'',
                        pi_rtmp_base_url = ''rtmp://a.rtmp.youtube.com/live2/'' \<rparr>,
       pp_rtmp_url = None, pp_stream_key = ''key1'' \<rparr>"

definition twitch_target :: push_platform where
  "twitch_target =
     \<lparr> pp_platform = \<lparr> pi_codigo = ''twitch'', pi_nome = ''Twitch'',
                        pi_rtmp_base_url = ''rtmp://live-dfw.twitch.tv/app/'' \<rparr>,
       pp_rtmp_url = None, pp_stream_key = ''key2'' \<rparr>"

definition alice_smil :: smil_config where
  "alice_smil =
     \<lparr> sc_streamId = ''stream_alice_1'', sc_userLogin = ''alice'',
       sc_userConfig = \<lparr> uc_bitrate = None, uc_espectadores = None \<rparr>,
       sc_smilFile = ''playlists_agendamentos.smil'',
       sc_platforms = Some [youtube_target, twitch_target] \<rparr>"

definition pushes_time_out :: "nat \<Rightarrow> unit fetch_outcome" where
  "pushes_time_out i = Fetch_throws ''network timeout''"

definition pushes_succeed :: "nat \<Rightarrow> unit fetch_outcome" where
  "pushes_succeed i = Response_ok ()"

definition only_first_push_succeeds :: "nat \<Rightarrow> unit fetch_outcome" where
  "only_first_push_succeeds i = (if i = 0 then Response_ok () else Response_not_ok 500 ''error'')"

definition relay_up :: "(nat \<Rightarrow> unit fetch_outcome) \<Rightarrow> wowza_env" where
  \<comment> \<open>the application exists and the stream publisher connects\<close>
  "relay_up pushes =
     \<lparr> we_checkApplication = Response_ok (), we_createApplication = Response_ok (),
       we_connect = Response_ok (), we_pushPublish = pushes \<rparr>"

section \<open>Results\<close>

subsection \<open>The transcoder command\<close>

lemma sublist_in_context: "sublist xs (a @ b @ c @ d @ e @ xs @ ss)"
proof -
  have "a @ b @ c @ d @ e @ xs @ ss = (a @ b @ c @ d @ e) @ xs @ ss" by simp
  then show ?thesis by (metis sublist_appendI)
qed

lemma vertical_crop_args_split:
  "vertical_crop_args = '' -vf '' @ [CHR 0x27] @ crop_9_16 @ [CHR 0x27] @ '' -crf 21 -r 24 -g 48 -b:v 3000000 -b:a 128k -ar 44100 -acodec aac -vcodec libx264 -preset ultrafast -bufsize '(6.000*3000000)/8' -maxrate 3500000 -threads 1 -f flv ''"
  by (simp add: vertical_crop_args_def crop_9_16_def)

text \<open>
  C9. The command is a function of the platform id, the source URL and the destination
  URL alone, so two runs that agree on the three give the same string, byte for byte; and
  for the vertical-crop platforms \<open>tiktok\<close> and \<open>kwai\<close> the command contains the fixed
  crop expression \<open>crop=ih*(9/16):ih\<close>, whatever the source is (its resolution is not an
  input of the builder).
\<close>

theorem ffmpegCommand_pure_and_vertical_crop:
  "(tipo = tipo' \<and> src = src' \<and> dst = dst'
      \<longrightarrow> ffmpegCommand tipo src dst = ffmpegCommand tipo' src' dst')
   \<and> (tipo = ''tiktok'' \<or> tipo = ''kwai''
      \<longrightarrow> js_includes (ffmpegCommand tipo src dst) crop_9_16)"
proof (intro conjI impI)
  assume "tipo = tipo' \<and> src = src' \<and> dst = dst'"
  then show "ffmpegCommand tipo src dst = ffmpegCommand tipo' src' dst'" by simp
next
  assume t: "tipo = ''tiktok'' \<or> tipo = ''kwai''"
  then have nf: "tipo \<noteq> ''facebook''" by auto
  have cmd: "ffmpegCommand tipo src dst =
      ''/usr/local/bin/ffmpeg -re -i '' @ dq @ src @ dq @ vertical_crop_args @ dq @ dst @ dq"
    using t nf unfolding ffmpegCommand_def by (simp only: if_False if_True)
  have "sublist crop_9_16 (''/usr/local/bin/ffmpeg -re -i '' @ (dq @ src) @ dq @ '' -vf '' @ [CHR 0x27] @ crop_9_16
      @ ([CHR 0x27] @ '' -crf 21 -r 24 -g 48 -b:v 3000000 -b:a 128k -ar 44100 -acodec aac -vcodec libx264 -preset ultrafast -bufsize '(6.000*3000000)/8' -maxrate 3500000 -threads 1 -f flv '' @ dq @ dst @ dq))"
    by (rule sublist_in_context)
  then show "js_includes (ffmpegCommand tipo src dst) crop_9_16"
    unfolding js_includes_def cmd vertical_crop_args_split by simp
qed

theorem ffmpegCommand_pure_and_vertical_crop_witness:
  "(''tiktok'' = ''tiktok'' \<and> ''http://h/a.m3u8'' = ''http://h/a.m3u8'' \<and> ''rtmp://d/k'' = ''rtmp://d/k'')
   \<and> ffmpegCommand ''tiktok'' ''http://h/a.m3u8'' ''rtmp://d/k''
       = ffmpegCommand ''tiktok'' ''http://h/a.m3u8'' ''rtmp://d/k''
   \<and> (''kwai'' = ''tiktok'' \<or> ''kwai'' = ''kwai'')
   \<and> js_includes (ffmpegCommand ''kwai'' ''http://h/a.m3u8'' ''rtmp://d/k'') crop_9_16"
  using ffmpegCommand_pure_and_vertical_crop
          [of "''tiktok''" "''tiktok''" "''http://h/a.m3u8''" "''http://h/a.m3u8''"
              "''rtmp://d/k''" "''rtmp://d/k''"]
        ffmpegCommand_pure_and_vertical_crop
          [of "''kwai''" "''kwai''" "''http://h/a.m3u8''" "''http://h/a.m3u8''"
              "''rtmp://d/k''" "''rtmp://d/k''"]
  by simp

subsection \<open>Plan limits\<close>

text \<open>
  C10. \<open>checkUserLimits\<close> always answers \<open>success = true\<close>. With the plan maximum
  \<open>userConfig.bitrate || 2500\<close>, the allowed bitrate is the minimum of the requested
  bitrate and the plan maximum when a bitrate is requested, and the plan maximum when none
  is (a missing or zero \<open>requestedBitrate\<close>, which is how the function itself fills
  \<open>limits.bitrate.requested\<close>); so it never exceeds the plan maximum. A warning is
  produced exactly when a requested bitrate exceeds the plan maximum.
\<close>

theorem checkUserLimits_allowed_bitrate:
  "ul_success (checkUserLimits uc rb) = True
   \<and> ul_bitrate_max (checkUserLimits uc rb) = or_num (uc_bitrate uc) 2500
   \<and> ul_bitrate_allowed (checkUserLimits uc rb)
       = min (ul_bitrate_requested (checkUserLimits uc rb)) (ul_bitrate_max (checkUserLimits uc rb))
   \<and> (\<forall>r. rb = Some r \<and> r \<noteq> 0
         \<longrightarrow> ul_bitrate_allowed (checkUserLimits uc rb) = min r (ul_bitrate_max (checkUserLimits uc rb)))
   \<and> (\<not> truthy_num rb
         \<longrightarrow> ul_bitrate_allowed (checkUserLimits uc rb) = ul_bitrate_max (checkUserLimits uc rb))
   \<and> ul_bitrate_allowed (checkUserLimits uc rb) \<le> ul_bitrate_max (checkUserLimits uc rb)
   \<and> (ul_warnings (checkUserLimits uc rb) \<noteq> []
         \<longleftrightarrow> (\<exists>r. rb = Some r \<and> r \<noteq> 0 \<and> r > ul_bitrate_max (checkUserLimits uc rb)))"
  by (cases rb) (auto simp: checkUserLimits_def Let_def or_num_def truthy_num_def)

theorem checkUserLimits_allowed_bitrate_witness:
  "(Some 3000 = Some (3000::int) \<and> (3000::int) \<noteq> 0)
   \<and> ul_bitrate_allowed (checkUserLimits \<lparr>uc_bitrate = Some 2000, uc_espectadores = None\<rparr> (Some 3000)) = 2000
   \<and> ul_warnings (checkUserLimits \<lparr>uc_bitrate = Some 2000, uc_espectadores = None\<rparr> (Some 3000)) \<noteq> []
   \<and> \<not> truthy_num None
   \<and> ul_bitrate_allowed (checkUserLimits \<lparr>uc_bitrate = Some 2000, uc_espectadores = None\<rparr> None) = 2000
   \<and> ul_warnings (checkUserLimits \<lparr>uc_bitrate = Some 2000, uc_espectadores = None\<rparr> None) = []"
proof -
  let ?uc = "\<lparr>uc_bitrate = Some 2000, uc_espectadores = None\<rparr>"
  note a = checkUserLimits_allowed_bitrate [of ?uc "Some 3000"]
  note b = checkUserLimits_allowed_bitrate [of ?uc None]
  note a_max = a [THEN conjunct2, THEN conjunct1]
  note a_req = a [THEN conjunct2, THEN conjunct2, THEN conjunct2, THEN conjunct1, THEN spec, of 3000]
  note a_warn = a [THEN conjunct2, THEN conjunct2, THEN conjunct2, THEN conjunct2, THEN conjunct2,
                   THEN conjunct2]
  note b_max = b [THEN conjunct2, THEN conjunct1]
  note b_none = b [THEN conjunct2, THEN conjunct2, THEN conjunct2, THEN conjunct2, THEN conjunct1]
  note b_warn = b [THEN conjunct2, THEN conjunct2, THEN conjunct2, THEN conjunct2, THEN conjunct2,
                   THEN conjunct2]
  have plan: "or_num (uc_bitrate ?uc) 2500 = 2000" by (simp add: or_num_def)
  have none: "\<not> truthy_num None" by (simp add: truthy_num_def)
  have ma: "ul_bitrate_max (checkUserLimits ?uc (Some 3000)) = 2000"
    unfolding a_max by (rule plan)
  have mb: "ul_bitrate_max (checkUserLimits ?uc None) = 2000"
    unfolding b_max by (rule plan)
  have "ul_bitrate_allowed (checkUserLimits ?uc (Some 3000))
          = min 3000 (ul_bitrate_max (checkUserLimits ?uc (Some 3000)))"
    by (rule a_req [THEN mp]) simp
  then have a1: "ul_bitrate_allowed (checkUserLimits ?uc (Some 3000)) = 2000"
    unfolding ma by simp
  have "\<exists>r. Some (3000::int) = Some r \<and> r \<noteq> 0 \<and> r > ul_bitrate_max (checkUserLimits ?uc (Some 3000))"
    unfolding ma by simp
  then have a2: "ul_warnings (checkUserLimits ?uc (Some 3000)) \<noteq> []"
    by (rule a_warn [THEN iffD2])
  have "ul_bitrate_allowed (checkUserLimits ?uc None) = ul_bitrate_max (checkUserLimits ?uc None)"
    by (rule b_none [THEN mp]) (rule none)
  then have b1: "ul_bitrate_allowed (checkUserLimits ?uc None) = 2000"
    unfolding mb .
  have b2: "ul_warnings (checkUserLimits ?uc None) = []"
  proof (rule ccontr)
    assume "ul_warnings (checkUserLimits ?uc None) \<noteq> []"
    then have "\<exists>r. (None :: int option) = Some r \<and> r \<noteq> 0 \<and> r > ul_bitrate_max (checkUserLimits ?uc None)"
      by (rule b_warn [THEN iffD1])
    then show False by simp
  qed
  show ?thesis
    by (intro conjI) (simp, simp, rule a1, rule a2, rule none, rule b1, rule b2)
qed

subsection \<open>Creating a session\<close>

lemma skip_white_none: "white_prefix s = 0 \<Longrightarrow> skip_white s = s"
  by (subst skip_white.simps) simp

lemma start_conflict:
  "start_request_valid db (effective_id user) body \<Longrightarrow> active_transmissions db (effective_id user) \<noteq> []
   \<Longrightarrow> start now db user body = (Start_400_ja_existe_transmissao_ativa, db, [])"
  unfolding start_def start_request_valid_def Let_def
  by (auto split: option.splits list.splits prod.splits)

lemma start_invalid:
  "\<not> start_request_valid db (effective_id user) body
   \<Longrightarrow> validation_error (fst (start now db user body)) \<and> snd (start now db user body) = (db, [])"
  unfolding start_def start_request_valid_def Let_def validation_error_def
  by (auto split: option.splits list.splits prod.splits)

lemma start_proceeds:
  "start_request_valid db (effective_id user) body \<Longrightarrow> active_transmissions db (effective_id user) = []
   \<Longrightarrow> \<exists>nome row. start now db user body =
         (Start_200 (insertId (map t_codigo (transmissoes db))) nome,
          db\<lparr>transmissoes := transmissoes db @ [row]\<rparr>,
          [UpdateUserSMIL (effective_id user) (userLogin_of user (effective_id user))
             (servidor_of db (effective_id user))])
        \<and> t_status row = ''ativa'' \<and> t_codigo_stm row = effective_id user"
  unfolding start_def start_request_valid_def Let_def
  by (auto split: option.splits list.splits prod.splits simp: servidor_of_def)

lemma length_update_lives: "length (lives (update_lives P f db)) = length (lives db)"
  by (simp add: update_lives_def)

lemma immediate_start_length:
  "length (lives (fst (snd (immediate_start env db lg sid cod tipo stm dst)))) = length (lives db)"
  unfolding immediate_start_def Let_def playerUrls_in_else_block_def set_live_status_def
  by (auto split: ssh_outcome.splits simp: length_update_lives)

lemma startLive_inserts:
  "live_fields_present body \<Longrightarrow>
     length (lives (fst (snd (startLive env db user body)))) = Suc (length (lives db))"
  unfolding startLive_def Let_def live_fields_present_def truthy_str_def set_live_status_def
  by (auto split: option.splits prod.splits sum.splits simp: length_update_lives
      dest!: arg_cong[where f="\<lambda>x. length (lives (fst (snd x)))"] simp: immediate_start_length)

text \<open>
  C1, as stated, fails. Alice has an external push that is transmitting (state Live).
  Her start-live request with immediate start is not rejected: the route makes no query
  for an existing session, a second row is inserted, two remote commands are sent, and she
  ends with two sessions in state Live. Her playlist start is not rejected either: the
  check of that route reads \<open>transmissoes\<close> only.
\<close>

theorem create_with_live_session_counterexample:
  "non_terminal (live_state alice_live)
   \<and> alice_live \<in> set (lives db_alice_live) \<and> l_codigo_stm alice_live = u_id alice
   \<and> fst (startLive (env_counting ''1'') db_alice_live alice push_body)
       = Live_200_transmitindo 2 (playerUrls_of ''alice'')
   \<and> map live_state (lives (fst (snd (startLive (env_counting ''1'') db_alice_live alice push_body))))
       = [Live, Live]
   \<and> length (snd (snd (startLive (env_counting ''1'') db_alice_live alice push_body))) = 2
   \<and> fst (start 200 db_alice_live alice playlist_body) = Start_200 1 ''plist-1''"
  by (simp add: alice_def alice_live_def db_alice_idle_def db_alice_live_def push_body_def
        playlist_body_def transport_counting_def env_counting_def
        startLive_def immediate_start_def Let_def userLogin_of_def insertId_def
        endsWith_def checkCommand_def parseInt_def skip_white_none white_prefix_def white_space_def digit_of_def digits_value_def or_num_def
        update_lives_def servidor_of_def set_live_status_def playerUrls_in_else_block_def
        start_def effective_id_def owned_by_def active_transmissions_def non_terminal_def live_state_def)

text \<open>
  C1, amended. For every playlist start, if the owner already has a playlist
  transmission in the active state (status \<open>ativa\<close>), the request is rejected before
  any side effect: no row is inserted and no remote action is taken. The reply is the
  already-active error when the request is valid, and the validation error when it is
  not. Otherwise a valid request proceeds: it inserts an \<open>ativa\<close> row for the owner
  and rewrites the owner's SMIL file.
\<close>

theorem start_rejects_active_transmission:
  "(start_request_valid db (effective_id user) body \<and> active_transmissions db (effective_id user) \<noteq> []
      \<longrightarrow> start now db user body = (Start_400_ja_existe_transmissao_ativa, db, []))
   \<and> (\<not> start_request_valid db (effective_id user) body
      \<longrightarrow> validation_error (fst (start now db user body)) \<and> snd (start now db user body) = (db, []))
   \<and> (start_request_valid db (effective_id user) body \<and> active_transmissions db (effective_id user) = []
      \<longrightarrow> (\<exists>nome row. start now db user body =
             (Start_200 (insertId (map t_codigo (transmissoes db))) nome,
              db\<lparr>transmissoes := transmissoes db @ [row]\<rparr>,
              [UpdateUserSMIL (effective_id user) (userLogin_of user (effective_id user))
                 (servidor_of db (effective_id user))])
            \<and> t_status row = ''ativa'' \<and> t_codigo_stm row = effective_id user))"
  using start_conflict start_invalid start_proceeds by blast

theorem start_rejects_active_transmission_witness:
  "(start_request_valid db_alice_ativa (effective_id alice) playlist_body
      \<and> active_transmissions db_alice_ativa (effective_id alice) \<noteq> [])
   \<and> start 200 db_alice_ativa alice playlist_body = (Start_400_ja_existe_transmissao_ativa, db_alice_ativa, [])
   \<and> \<not> start_request_valid db_alice_ativa (effective_id alice) (playlist_body\<lparr>sb_titulo := None\<rparr>)
   \<and> snd (start 200 db_alice_ativa alice (playlist_body\<lparr>sb_titulo := None\<rparr>)) = (db_alice_ativa, [])
   \<and> (start_request_valid db_alice_idle (effective_id alice) playlist_body
      \<and> active_transmissions db_alice_idle (effective_id alice) = [])
   \<and> fst (start 200 db_alice_idle alice playlist_body) = Start_200 1 ''plist-1''"
proof -
  have a: "start_request_valid db_alice_ativa (effective_id alice) playlist_body
      \<and> active_transmissions db_alice_ativa (effective_id alice) \<noteq> []"
    by (simp add: alice_def alice_finalizada_def db_alice_idle_def db_alice_ativa_def playlist_body_def
           start_request_valid_def effective_id_def owned_by_def active_transmissions_def)
  have b: "\<not> start_request_valid db_alice_ativa (effective_id alice) (playlist_body\<lparr>sb_titulo := None\<rparr>)"
    by (simp add: playlist_body_def start_request_valid_def)
  have c: "start_request_valid db_alice_idle (effective_id alice) playlist_body
      \<and> active_transmissions db_alice_idle (effective_id alice) = []"
    by (simp add: alice_def db_alice_idle_def playlist_body_def
           start_request_valid_def effective_id_def owned_by_def active_transmissions_def)
  have f: "insertId (map t_codigo (transmissoes db_alice_idle)) = 1"
    by (simp add: db_alice_idle_def insertId_def)
  note t1 = start_rejects_active_transmission [of db_alice_ativa alice playlist_body 200]
  note t2 = start_rejects_active_transmission
              [of db_alice_ativa alice "playlist_body\<lparr>sb_titulo := None\<rparr>" 200]
  note t3 = start_rejects_active_transmission [of db_alice_idle alice playlist_body 200]
  have g: "fst (start 200 db_alice_idle alice playlist_body) = Start_200 1 ''plist-1''"
  proof -
    obtain nome row where
      "start 200 db_alice_idle alice playlist_body =
         (Start_200 (insertId (map t_codigo (transmissoes db_alice_idle))) nome,
          db_alice_idle\<lparr>transmissoes := transmissoes db_alice_idle @ [row]\<rparr>,
          [UpdateUserSMIL (effective_id alice) (userLogin_of alice (effective_id alice))
             (servidor_of db_alice_idle (effective_id alice))])"
      using t3 c by blast
    then have "\<exists>nome. fst (start 200 db_alice_idle alice playlist_body) = Start_200 1 nome"
      unfolding f by simp
    moreover have "\<And>nome. fst (start 200 db_alice_idle alice playlist_body) = Start_200 1 nome
        \<Longrightarrow> nome = ''plist-1''"
      by (simp add: alice_def db_alice_idle_def playlist_body_def
            start_def Let_def effective_id_def owned_by_def active_transmissions_def insertId_def)
    ultimately show ?thesis by blast
  qed
  show ?thesis
    using a b c g t1 t2 by simp
qed

subsection \<open>The status query\<close>

lemma order_desc_limit1_None: "order_desc_limit1 k xs = None \<longleftrightarrow> xs = []"
  by (induction xs) (auto split: option.splits)

lemma order_desc_limit1_Some: "order_desc_limit1 k xs = Some y \<Longrightarrow> xs \<noteq> []"
  by (cases xs) auto

text \<open>
  C2, as stated, fails. Alice's only session is an external push whose row has status
  \<open>0\<close> (Stopped): the status query reports it with \<open>is_live = true\<close> and
  \<open>isActive = true\<close>. The same happens when her only session is a playlist
  transmission with status \<open>finalizada\<close>.
\<close>

theorem status_reports_stopped_session_counterexample:
  "map live_state (lives db_alice_stopped) = [Stopped] \<and> terminal Stopped
   \<and> map l_codigo_stm (lives db_alice_stopped) = [effective_id alice]
   \<and> status db_alice_stopped alice
       = \<lparr> sr_success = True, sr_is_live = True, sr_stream_type = Some ''obs'',
           sr_id = Some 1, sr_isActive = Some True \<rparr>
   \<and> map t_status (transmissoes db_alice_finalizada) = [''finalizada'']
   \<and> map t_codigo_stm (transmissoes db_alice_finalizada) = [effective_id alice]
   \<and> status db_alice_finalizada alice
       = \<lparr> sr_success = True, sr_is_live = True, sr_stream_type = Some ''playlist'',
           sr_id = Some 4, sr_isActive = Some True \<rparr>"
  by (simp add: alice_def alice_live_def alice_finalizada_def db_alice_idle_def db_alice_stopped_def
        db_alice_finalizada_def status_def effective_id_def live_state_def terminal_def)

text \<open>
  C2, amended. The status query does not read the declared state. It reports
  \<open>is_live = true\<close> exactly when the owner has at least one row in \<open>transmissoes\<close> or
  in \<open>lives\<close>, whatever the status of that row, and \<open>is_live = false\<close> exactly when the
  owner has no row in either table.
\<close>

theorem status_is_live_iff_owner_has_row:
  "sr_is_live (status db user) \<longleftrightarrow>
     ((\<exists>t\<in>set (transmissoes db). t_codigo_stm t = effective_id user)
      \<or> (\<exists>r\<in>set (lives db). l_codigo_stm r = effective_id user))"
proof -
  let ?ts = "filter (\<lambda>t. t_codigo_stm t = effective_id user) (transmissoes db)"
  let ?ls = "filter (\<lambda>r. l_codigo_stm r = effective_id user) (lives db)"
  have a: "(?ts \<noteq> []) = (\<exists>t\<in>set (transmissoes db). t_codigo_stm t = effective_id user)"
    by (simp add: filter_empty_conv)
  have b: "(?ls \<noteq> []) = (\<exists>r\<in>set (lives db). l_codigo_stm r = effective_id user)"
    by (simp add: filter_empty_conv)
  have "sr_is_live (status db user) = (?ts \<noteq> [] \<or> ?ls \<noteq> [])"
    unfolding status_def Let_def
    by (cases "order_desc_limit1 t_data_inicio ?ts"; cases "order_desc_limit1 l_data_inicio ?ls")
       (auto simp: order_desc_limit1_None dest: order_desc_limit1_Some)
  then show ?thesis using a b by simp
qed

theorem status_is_live_iff_owner_has_row_witness:
  "(\<exists>r\<in>set (lives db_alice_stopped). l_codigo_stm r = effective_id alice)
   \<and> sr_is_live (status db_alice_stopped alice)
   \<and> \<not> (\<exists>t\<in>set (transmissoes db_alice_idle). t_codigo_stm t = effective_id alice)
   \<and> \<not> (\<exists>r\<in>set (lives db_alice_idle). l_codigo_stm r = effective_id alice)
   \<and> \<not> sr_is_live (status db_alice_idle alice)"
  using status_is_live_iff_owner_has_row [of db_alice_stopped alice]
        status_is_live_iff_owner_has_row [of db_alice_idle alice]
  by (simp add: alice_def alice_live_def db_alice_idle_def db_alice_stopped_def effective_id_def)

subsection \<open>Stopping an external push\<close>

lemma live_state_range: "live_state r \<noteq> Stopping \<and> live_state r \<noteq> Starting"
  by (simp add: live_state_def)

lemma owns_live_filter:
  "owns_live db user liveId \<longleftrightarrow>
     filter (\<lambda>r. l_codigo r = liveId \<and> l_codigo_stm r = u_id user) (lives db) \<noteq> []"
  by (auto simp: owns_live_def filter_empty_conv)

lemma stopLive_success:
  assumes "owns_live (ms_db st) user liveId"
    and "executeCommand (servidor_of (ms_db st) (u_id user)) (stop_command user liveId) = SSH_result out"
  shows "\<exists>tipo. stopLive executeCommand now st user liveId =
           (StopLive_200_finalizada liveId tipo,
            \<lparr> ms_db = finalize_live now liveId (ms_db st),
              activeTransmissions = registry_delete (u_id user, liveId) (activeTransmissions st) \<rparr>,
            [SSH_executeCommand (servidor_of (ms_db st) (u_id user)) (stop_command user liveId)])"
proof -
  obtain r rs where rows:
    "filter (\<lambda>r. l_codigo r = liveId \<and> l_codigo_stm r = u_id user) (lives (ms_db st)) = r # rs"
    using assms(1) unfolding owns_live_filter by (meson list.exhaust)
  show ?thesis
    using assms(2) unfolding stopLive_def Let_def rows stop_command_def by simp
qed

lemma stopLive_failure:
  assumes "owns_live (ms_db st) user liveId"
    and "executeCommand (servidor_of (ms_db st) (u_id user)) (stop_command user liveId) = SSH_throws message"
  shows "stopLive executeCommand now st user liveId =
           (StopLive_500_erro_ao_finalizar message, st,
            [SSH_executeCommand (servidor_of (ms_db st) (u_id user)) (stop_command user liveId)])"
proof -
  obtain r rs where rows:
    "filter (\<lambda>r. l_codigo r = liveId \<and> l_codigo_stm r = u_id user) (lives (ms_db st)) = r # rs"
    using assms(1) unfolding owns_live_filter by (meson list.exhaust)
  show ?thesis
    using assms(2) unfolding stopLive_def Let_def rows stop_command_def by simp
qed

lemma stopLive_unknown:
  assumes "\<not> owns_live (ms_db st) user liveId"
  shows "stopLive executeCommand now st user liveId = (StopLive_404_nao_encontrada, st, [])"
proof -
  have rows: "filter (\<lambda>r. l_codigo r = liveId \<and> l_codigo_stm r = u_id user) (lives (ms_db st)) = []"
    using assms unfolding owns_live_filter by simp
  show ?thesis unfolding stopLive_def Let_def rows by simp
qed

lemma lives_finalize_live:
  "lives (finalize_live now liveId db) =
     map (\<lambda>r. if l_codigo r = liveId then r\<lparr>l_status := ''0'', l_data_fim := Some now\<rparr> else r) (lives db)"
  by (simp add: finalize_live_def update_lives_def)

lemma finalize_live_rows:
  assumes "r \<in> set (lives (finalize_live now liveId db))" and "l_codigo r = liveId"
  shows "l_status r = ''0'' \<and> l_data_fim r = Some now"
proof -
  obtain x where x: "x \<in> set (lives db)"
    and r: "r = (if l_codigo x = liveId then x\<lparr>l_status := ''0'', l_data_fim := Some now\<rparr> else x)"
    using assms(1) unfolding lives_finalize_live set_map by blast
  show ?thesis
  proof (cases "l_codigo x = liveId")
    case True
    then show ?thesis using r by simp
  next
    case False
    then show ?thesis using r assms(2) by simp
  qed
qed

lemma finalize_live_Stopped:
  assumes "r \<in> set (lives (finalize_live now liveId db))" and "l_codigo r = liveId"
  shows "live_state r = Stopped \<and> l_data_fim r = Some now"
  using finalize_live_rows[OF assms] by (simp add: live_state_def)

text \<open>
  C3, as stated, fails. Alice stops her transmitting push while the host cannot be
  reached: the caller gets the 500 error, and the stored record is Live, not Stopping.
  The route writes nothing before the remote command, and no status of the table stands
  for Stopping.
\<close>

theorem stopLive_transport_failure_counterexample:
  "map live_state (lives db_alice_live) = [Live]
   \<and> fst (stopLive transport_down 300 \<lparr> ms_db = db_alice_live, activeTransmissions = [] \<rparr> alice 1)
       = StopLive_500_erro_ao_finalizar ''connect ECONNREFUSED''
   \<and> map live_state
        (lives (ms_db (fst (snd (stopLive transport_down 300
           \<lparr> ms_db = db_alice_live, activeTransmissions = [] \<rparr> alice 1)))))
       = [Live]"
  by (simp add: alice_def alice_live_def db_alice_idle_def db_alice_live_def transport_down_def
        stopLive_def Let_def live_state_def)

text \<open>
  C3, amended. For every stop request on a session of the caller: no Stopping state is
  persisted at any point; when the transport succeeds the route persists Stopped (status
  \<open>0\<close>) with \<open>data_fim\<close> set to the current time and answers success; when the
  transport fails the module's state is left exactly as it was, so a Live session stays
  Live, and the caller gets the 500 error with the transport's message.
\<close>

theorem stopLive_persists_stopped_or_nothing:
  "(owns_live (ms_db st) user liveId
      \<and> executeCommand (servidor_of (ms_db st) (u_id user)) (stop_command user liveId) = SSH_result out
     \<longrightarrow> (\<exists>tipo. fst (stopLive executeCommand now st user liveId) = StopLive_200_finalizada liveId tipo)
         \<and> ms_db (fst (snd (stopLive executeCommand now st user liveId))) = finalize_live now liveId (ms_db st)
         \<and> (\<forall>r\<in>set (lives (ms_db (fst (snd (stopLive executeCommand now st user liveId))))).
               l_codigo r = liveId \<longrightarrow> live_state r = Stopped \<and> l_data_fim r = Some now))
   \<and> (owns_live (ms_db st) user liveId
      \<and> executeCommand (servidor_of (ms_db st) (u_id user)) (stop_command user liveId) = SSH_throws message
     \<longrightarrow> fst (stopLive executeCommand now st user liveId) = StopLive_500_erro_ao_finalizar message
         \<and> fst (snd (stopLive executeCommand now st user liveId)) = st)
   \<and> (\<forall>r\<in>set (lives (ms_db (fst (snd (stopLive executeCommand now st user liveId))))).
         live_state r \<noteq> Stopping)"
proof (intro conjI impI)
  assume h: "owns_live (ms_db st) user liveId
      \<and> executeCommand (servidor_of (ms_db st) (u_id user)) (stop_command user liveId) = SSH_result out"
  then obtain tipo where eq: "stopLive executeCommand now st user liveId =
           (StopLive_200_finalizada liveId tipo,
            \<lparr> ms_db = finalize_live now liveId (ms_db st),
              activeTransmissions = registry_delete (u_id user, liveId) (activeTransmissions st) \<rparr>,
            [SSH_executeCommand (servidor_of (ms_db st) (u_id user)) (stop_command user liveId)])"
    using stopLive_success by blast
  show "\<exists>tipo. fst (stopLive executeCommand now st user liveId) = StopLive_200_finalizada liveId tipo"
    unfolding eq by simp
  show db: "ms_db (fst (snd (stopLive executeCommand now st user liveId))) = finalize_live now liveId (ms_db st)"
    unfolding eq by simp
  show "\<forall>r\<in>set (lives (ms_db (fst (snd (stopLive executeCommand now st user liveId))))).
               l_codigo r = liveId \<longrightarrow> live_state r = Stopped \<and> l_data_fim r = Some now"
    unfolding db using finalize_live_Stopped by blast
next
  assume h: "owns_live (ms_db st) user liveId
      \<and> executeCommand (servidor_of (ms_db st) (u_id user)) (stop_command user liveId) = SSH_throws message"
  then have eq: "stopLive executeCommand now st user liveId =
           (StopLive_500_erro_ao_finalizar message, st,
            [SSH_executeCommand (servidor_of (ms_db st) (u_id user)) (stop_command user liveId)])"
    using stopLive_failure by blast
  show "fst (stopLive executeCommand now st user liveId) = StopLive_500_erro_ao_finalizar message"
    unfolding eq by simp
  show "fst (snd (stopLive executeCommand now st user liveId)) = st"
    unfolding eq by simp
next
  show "\<forall>r\<in>set (lives (ms_db (fst (snd (stopLive executeCommand now st user liveId))))).
         live_state r \<noteq> Stopping"
    using live_state_range by blast
qed

theorem stopLive_persists_stopped_or_nothing_witness:
  "(owns_live db_alice_live alice 1
      \<and> transport_counting ''1'' (servidor_of db_alice_live (u_id alice)) (stop_command alice 1) = SSH_result ''OK'')
   \<and> map live_state
        (lives (ms_db (fst (snd (stopLive (transport_counting ''1'') 300
           \<lparr> ms_db = db_alice_live, activeTransmissions = [] \<rparr> alice 1))))) = [Stopped]
   \<and> map l_data_fim
        (lives (ms_db (fst (snd (stopLive (transport_counting ''1'') 300
           \<lparr> ms_db = db_alice_live, activeTransmissions = [] \<rparr> alice 1))))) = [Some 300]
   \<and> (owns_live db_alice_live alice 1
      \<and> transport_down (servidor_of db_alice_live (u_id alice)) (stop_command alice 1)
          = SSH_throws ''connect ECONNREFUSED'')
   \<and> fst (snd (stopLive transport_down 300 \<lparr> ms_db = db_alice_live, activeTransmissions = [] \<rparr> alice 1))
       = \<lparr> ms_db = db_alice_live, activeTransmissions = [] \<rparr>"
proof -
  have own: "owns_live db_alice_live alice 1"
    by (simp add: owns_live_def alice_def alice_live_def db_alice_idle_def db_alice_live_def)
  have up: "transport_counting ''1'' (servidor_of db_alice_live (u_id alice)) (stop_command alice 1) = SSH_result ''OK''"
    by (simp add: transport_counting_def stop_command_def)
  have down: "transport_down (servidor_of db_alice_live (u_id alice)) (stop_command alice 1)
          = SSH_throws ''connect ECONNREFUSED''"
    by (simp add: transport_down_def)
  have fin: "lives (finalize_live 300 1 db_alice_live) = [alice_live\<lparr>l_status := ''0'', l_data_fim := Some 300\<rparr>]"
    by (simp add: lives_finalize_live db_alice_live_def alice_live_def)
  note ok = stopLive_persists_stopped_or_nothing
      [of "\<lparr> ms_db = db_alice_live, activeTransmissions = [] \<rparr>" alice 1 "transport_counting ''1''" "''OK''" 300]
  note ko = stopLive_persists_stopped_or_nothing
      [of "\<lparr> ms_db = db_alice_live, activeTransmissions = [] \<rparr>" alice 1 transport_down _ _ "''connect ECONNREFUSED''"]
  have a: "ms_db (fst (snd (stopLive (transport_counting ''1'') 300
           \<lparr> ms_db = db_alice_live, activeTransmissions = [] \<rparr> alice 1))) = finalize_live 300 1 db_alice_live"
    using ok own up by simp
  have b: "fst (snd (stopLive transport_down 300 \<lparr> ms_db = db_alice_live, activeTransmissions = [] \<rparr> alice 1))
       = \<lparr> ms_db = db_alice_live, activeTransmissions = [] \<rparr>"
    using ko[of _ 300] own down by simp
  show ?thesis
    unfolding a fin using own up down b by (simp add: live_state_def)
qed

subsection \<open>An immediate start that is not verified\<close>

lemma immediate_start_reply:
  "fst (immediate_start env db lg sid cod tipo stm dst) = Inr reply
     \<Longrightarrow> reply = Live_200_transmitindo cod (playerUrls_of lg)"
  unfolding immediate_start_def Let_def playerUrls_in_else_block_def
  by (auto split: ssh_outcome.splits if_splits)

lemma immediate_start_not_debug_info:
  "immediate_start env db lg sid cod tipo stm dst \<noteq> (Inr (Live_500_erro_ao_iniciar d), a, b)"
proof
  assume "immediate_start env db lg sid cod tipo stm dst = (Inr (Live_500_erro_ao_iniciar d), a, b)"
  then have "fst (immediate_start env db lg sid cod tipo stm dst) = Inr (Live_500_erro_ao_iniciar d)"
    by simp
  then have "Live_500_erro_ao_iniciar d = Live_200_transmitindo cod (playerUrls_of lg)"
    by (rule immediate_start_reply)
  then show False by simp
qed

lemma startLive_never_sends_debug_info:
  "fst (startLive env db user body) \<noteq> Live_500_erro_ao_iniciar d"
  unfolding startLive_def Let_def
  by (auto split: option.splits if_splits prod.splits sum.splits simp: immediate_start_not_debug_info)

lemma immediate_start_zero_processes:
  assumes "le_executeCommand env sid (''echo OK; '' @ screenCommand lg cod (ffmpegCommand tipo stm dst))
             = SSH_result out1"
    and "le_executeCommand env sid (checkCommand lg tipo) = SSH_result out2"
    and "or_num (parseInt out2) 0 \<le> 0"
  shows "immediate_start env db lg sid cod tipo stm dst =
           (Inl ''playerUrls is not defined'', set_live_status cod ''3'' db,
            [SSH_executeCommand sid (''echo OK; '' @ screenCommand lg cod (ffmpegCommand tipo stm dst)),
             SSH_executeCommand sid (checkCommand lg tipo)])"
  using assms unfolding immediate_start_def Let_def playerUrls_in_else_block_def by simp

text \<open>
  C4, at the failing input. Alice, with no session, asks for an immediate start; the host
  accepts the start command and the process listing counts \<open>0\<close>. The session ends
  Failed (status \<open>3\<close>) and \<open>data_fim\<close> keeps the scheduled end of the request, but the
  reply is the one of the \<open>catch\<close> block, whose detail is the ReferenceError raised while
  the diagnostic payload was being built: it carries neither the command nor the
  verification output.
\<close>

theorem startLive_zero_processes_reply:
  "or_num (parseInt ''0'') 0 = 0
   \<and> fst (startLive (env_counting ''0'') db_alice_idle alice push_body)
       = Live_500_erro_ao_conectar ''playerUrls is not defined''
   \<and> map live_state (lives (fst (snd (startLive (env_counting ''0'') db_alice_idle alice push_body))))
       = [Failed]
   \<and> map l_data_fim (lives (fst (snd (startLive (env_counting ''0'') db_alice_idle alice push_body))))
       = [Some 900]
   \<and> last (snd (snd (startLive (env_counting ''0'') db_alice_idle alice push_body)))
       = SSH_executeCommand 1 (checkCommand ''alice'' ''twitch'')"
  by (simp add: alice_def db_alice_idle_def push_body_def transport_counting_def env_counting_def
        startLive_def immediate_start_def Let_def userLogin_of_def insertId_def
        endsWith_def checkCommand_def parseInt_def skip_white_none white_prefix_def white_space_def digit_of_def digits_value_def or_num_def
        update_lives_def servidor_of_def set_live_status_def playerUrls_in_else_block_def
        live_state_def)

subsection \<open>The sweep at a termination signal\<close>

lemma finalize_live_tables [simp]:
  "streamings (finalize_live now liveId db) = streamings db"
  "folders (finalize_live now liveId db) = folders db"
  "transmissoes (finalize_live now liveId db) = transmissoes db"
  by (simp_all add: finalize_live_def update_lives_def)

lemma servidor_of_finalize [simp]: "servidor_of (finalize_live now l db) userId = servidor_of db userId"
  by (simp add: servidor_of_def)

lemma sweep_command_finalize [simp]:
  "sweep_command (finalize_live now l db) e = sweep_command db e"
  by (simp add: sweep_command_def cong: list.case_cong option.case_cong)

lemma stop_accepted_finalize [simp]:
  "stop_accepted ex (finalize_live now l db) e = stop_accepted ex db e"
  by (simp add: stop_accepted_def)

lemma sweep_step:
  "fst (sweep ex now db ((u, l) # reg)) =
     fst (sweep ex now (if stop_accepted ex db (u, l) then finalize_live (now (u, l)) l db else db) reg)"
  by (simp add: stop_accepted_def sweep_command_def Let_def
           split: list.split option.split ssh_outcome.split prod.split)

lemma sweep_actions_step:
  "snd (sweep ex now db ((u, l) # reg)) =
     (case sweep_command db (u, l) of
        None \<Rightarrow> []
      | Some (serverId, command) \<Rightarrow> [SSH_executeCommand serverId command])
     @ snd (sweep ex now (if stop_accepted ex db (u, l) then finalize_live (now (u, l)) l db else db) reg)"
  by (simp add: stop_accepted_def sweep_command_def Let_def
           split: list.split option.split ssh_outcome.split prod.split)

lemma sweep_issues_command:
  "e \<in> set reg \<Longrightarrow> sweep_command db e = Some (serverId, command)
     \<Longrightarrow> SSH_executeCommand serverId command \<in> set (snd (sweep ex now db reg))"
proof (induction reg arbitrary: db)
  case Nil
  then show ?case by simp
next
  case (Cons x reg)
  obtain u l where x: "x = (u, l)" by (cases x)
  let ?db = "if stop_accepted ex db (u, l) then finalize_live (now (u, l)) l db else db"
  have cmd: "sweep_command ?db e = Some (serverId, command)" using Cons.prems(2) by simp
  show ?case
  proof (cases "e = x")
    case True
    then have "sweep_command db (u, l) = Some (serverId, command)" using Cons.prems(2) x by simp
    then show ?thesis unfolding x sweep_actions_step by simp
  next
    case False
    then have mem: "e \<in> set reg" using Cons.prems(1) by simp
    have "SSH_executeCommand serverId command \<in> set (snd (sweep ex now ?db reg))"
      by (rule Cons.IH[OF mem cmd])
    then show ?thesis unfolding x sweep_actions_step by simp
  qed
qed

lemma stopLive_adds_no_key:
  "set (activeTransmissions (fst (snd (stopLive executeCommand now st user liveId))))
     \<subseteq> set (activeTransmissions st)"
proof (cases "owns_live (ms_db st) user liveId")
  case False
  then show ?thesis by (simp add: stopLive_unknown)
next
  case True
  show ?thesis
  proof (cases "executeCommand (servidor_of (ms_db st) (u_id user)) (stop_command user liveId)")
    case (SSH_throws message)
    then show ?thesis using True by (simp add: stopLive_failure)
  next
    case (SSH_result out)
    obtain tipo where "stopLive executeCommand now st user liveId =
           (StopLive_200_finalizada liveId tipo,
            \<lparr> ms_db = finalize_live now liveId (ms_db st),
              activeTransmissions = registry_delete (u_id user, liveId) (activeTransmissions st) \<rparr>,
            [SSH_executeCommand (servidor_of (ms_db st) (u_id user)) (stop_command user liveId)])"
      using stopLive_success[of st user liveId executeCommand out now] True SSH_result by blast
    then show ?thesis by (auto simp: registry_delete_def)
  qed
qed

lemma on_SIGINT_parts:
  "ms_db (fst (on_SIGINT ex now st)) = fst (sweep ex now (ms_db st) (activeTransmissions st))"
  "activeTransmissions (fst (on_SIGINT ex now st)) = []"
  "snd (on_SIGINT ex now st) = snd (sweep ex now (ms_db st) (activeTransmissions st))"
  by (simp_all add: on_SIGINT_def split: prod.split)

lemma finalize_live_as_update:
  "finalize_live t l db =
     db\<lparr>lives := map (\<lambda>r. if l_codigo r = l then r\<lparr>l_status := ''0'', l_data_fim := Some t\<rparr> else r) (lives db)\<rparr>"
  by (simp add: finalize_live_def update_lives_def)

lemma accepted_rounds_finalize [simp]:
  "accepted_rounds ex (finalize_live t l db) reg liveId = accepted_rounds ex db reg liveId"
  by (simp add: accepted_rounds_def)

lemma swept_row_finalize:
  "swept_row ex now (finalize_live t l db) reg = swept_row ex now db reg"
  by (rule ext) (simp add: swept_row_def)

lemma swept_row_Nil: "swept_row ex now db [] r = r"
  by (simp add: swept_row_def accepted_rounds_def)

lemma swept_row_skipped:
  "\<not> stop_accepted ex db (u, l) \<Longrightarrow> swept_row ex now db ((u, l) # reg) r = swept_row ex now db reg r"
  by (simp add: swept_row_def accepted_rounds_def)

lemma swept_row_other:
  "l_codigo r \<noteq> l \<Longrightarrow> swept_row ex now db ((u, l) # reg) r = swept_row ex now db reg r"
  by (simp add: swept_row_def accepted_rounds_def)

lemma swept_row_accepted:
  assumes "stop_accepted ex db (u, l)" and "l_codigo r = l"
  shows "swept_row ex now db reg (r\<lparr>l_status := ''0'', l_data_fim := Some (now (u, l))\<rparr>)
           = swept_row ex now db ((u, l) # reg) r"
proof (cases "rev (accepted_rounds ex db reg l)")
  case Nil
  then have a: "accepted_rounds ex db reg l = []" by simp
  have b: "accepted_rounds ex db ((u, l) # reg) l = [(u, l)]"
    using assms(1) a by (simp add: accepted_rounds_def)
  show ?thesis using assms(2) a b by (simp add: swept_row_def)
next
  case (Cons e es)
  have b: "rev (accepted_rounds ex db ((u, l) # reg) l) = e # (es @ [(u, l)])"
    using assms(1) Cons by (simp add: accepted_rounds_def)
  show ?thesis using assms(2) Cons b by (simp add: swept_row_def)
qed

lemma swept_row_after_finalize:
  assumes "stop_accepted ex db (u, l)"
  shows "swept_row ex now db reg
           (if l_codigo r = l then r\<lparr>l_status := ''0'', l_data_fim := Some (now (u, l))\<rparr> else r)
         = swept_row ex now db ((u, l) # reg) r"
proof (cases "l_codigo r = l")
  case True
  then show ?thesis using swept_row_accepted[OF assms True] by simp
next
  case False
  then show ?thesis by (simp add: swept_row_other)
qed

lemma sweep_store:
  "fst (sweep ex now db reg) = db\<lparr>lives := map (swept_row ex now db reg) (lives db)\<rparr>"
proof (induction reg arbitrary: db)
  case Nil
  have "map (swept_row ex now db []) (lives db) = lives db"
    by (rule map_idI) (rule swept_row_Nil)
  then show ?case by simp
next
  case (Cons x reg)
  obtain u l where x: "x = (u, l)" by (cases x)
  show ?case
  proof (cases "stop_accepted ex db (u, l)")
    case False
    have "map (swept_row ex now db ((u, l) # reg)) (lives db) = map (swept_row ex now db reg) (lives db)"
      using False by (simp add: swept_row_skipped)
    then show ?thesis unfolding x sweep_step using False Cons.IH[of db] by simp
  next
    case True
    let ?f = "\<lambda>r. if l_codigo r = l then r\<lparr>l_status := ''0'', l_data_fim := Some (now (u, l))\<rparr> else r"
    let ?db = "finalize_live (now (u, l)) l db"
    have ih: "fst (sweep ex now ?db reg) = ?db\<lparr>lives := map (swept_row ex now ?db reg) (lives ?db)\<rparr>"
      by (rule Cons.IH)
    have l: "lives ?db = map ?f (lives db)" by (simp add: finalize_live_as_update)
    have m: "map (swept_row ex now db reg) (map ?f (lives db))
               = map (swept_row ex now db ((u, l) # reg)) (lives db)"
      unfolding map_map comp_def using swept_row_after_finalize[OF True] by simp
    have "fst (sweep ex now ?db reg) = db\<lparr>lives := map (swept_row ex now db ((u, l) # reg)) (lives db)\<rparr>"
      unfolding ih swept_row_finalize l m by (simp add: finalize_live_as_update)
    then show ?thesis unfolding x sweep_step using True by simp
  qed
qed

lemma sweep_requests_finalize [simp]:
  "sweep_requests (finalize_live t l db) reg = sweep_requests db reg"
  by (simp add: sweep_requests_def)

lemma sweep_actions:
  "snd (sweep ex now db reg) = sweep_requests db reg"
proof (induction reg arbitrary: db)
  case Nil
  then show ?case by (simp add: sweep_requests_def)
next
  case (Cons x reg)
  obtain u l where x: "x = (u, l)" by (cases x)
  have "snd (sweep ex now (if stop_accepted ex db (u, l) then finalize_live (now (u, l)) l db else db) reg)
          = sweep_requests db reg"
    using Cons.IH by simp
  then show ?case unfolding x sweep_actions_step by (simp add: sweep_requests_def)
qed


lemma on_SIGINT_state:
  "fst (on_SIGINT ex now st)
     = \<lparr> ms_db = fst (sweep ex now (ms_db st) (activeTransmissions st)), activeTransmissions = [] \<rparr>"
  by (simp add: on_SIGINT_def split: prod.split)

lemma swept_row_last:
  assumes "accepted_rounds ex db reg (l_codigo r) \<noteq> []"
  shows "swept_row ex now db reg r
           = r\<lparr>l_status := ''0'', l_data_fim := Some (now (last (accepted_rounds ex db reg (l_codigo r))))\<rparr>"
proof -
  obtain e es where c: "rev (accepted_rounds ex db reg (l_codigo r)) = e # es"
    using assms by (cases "rev (accepted_rounds ex db reg (l_codigo r))") simp_all
  then have "accepted_rounds ex db reg (l_codigo r) = rev es @ [e]"
    by (simp add: rev_eq_Cons_iff)
  then have "last (accepted_rounds ex db reg (l_codigo r)) = e" by simp
  then show ?thesis using c by (simp add: swept_row_def)
qed

lemma swept_row_none:
  assumes "accepted_rounds ex db reg (l_codigo r) = []"
  shows "swept_row ex now db reg r = r"
  using assms by (simp add: swept_row_def)

text \<open>
  C5, as stated, fails. The sweep runs over the in-memory registry, not over the store.
  With alice's push Live in the store and the registry as the module creates it (empty),
  the handler sends no stop and the session is still Live when the process exits. And
  with her session registered but the host unreachable, the round's exception is caught
  and the session is still Live at exit.
\<close>

theorem sweep_leaves_live_session_counterexample:
  "map live_state (lives db_alice_live) = [Live]
   \<and> on_SIGINT (transport_counting ''1'') clock_300
        \<lparr> ms_db = db_alice_live, activeTransmissions = initial_registry \<rparr>
       = (\<lparr> ms_db = db_alice_live, activeTransmissions = [] \<rparr>, [])
   \<and> map live_state
        (lives (ms_db (fst (on_SIGINT transport_down clock_300
           \<lparr> ms_db = db_alice_live, activeTransmissions = [(7, 1)] \<rparr>))))
       = [Live]"
  by (simp add: alice_live_def db_alice_idle_def db_alice_live_def transport_down_def clock_300_def
        initial_registry_def on_SIGINT_def live_state_def sweep_login_def
        truthy_str_def Let_def)

text \<open>
  C5, amended. On SIGINT or SIGTERM the handler goes through the entries of the in-memory
  registry of active transmissions, in order, and exits with the registry empty. For
  every entry whose owner has a login in \<open>streamings\<close> it sends the kill command of the
  entry's screen session, and it sends nothing else. A row of \<open>lives\<close> is written only
  by a round whose command the transport accepts: the row then has status \<open>0\<close>
  (Stopped) and \<open>data_fim\<close> set to the \<open>NOW()\<close> of the last such round for its live.
  Every other row of \<open>lives\<close> -- its live is not in the registry, or the owner of its
  entry is unknown, or the transport fails for its entry, which ends that round only --
  is left exactly as it was. No other table is changed.
\<close>

theorem sweep_finalizes_registered_sessions:
  "fst (on_SIGINT ex now st)
     = \<lparr> ms_db = (ms_db st)\<lparr>lives := map (swept_row ex now (ms_db st) (activeTransmissions st))
                                          (lives (ms_db st))\<rparr>,
         activeTransmissions = [] \<rparr>
   \<and> snd (on_SIGINT ex now st) = sweep_requests (ms_db st) (activeTransmissions st)
   \<and> (\<forall>e\<in>set (activeTransmissions st). \<forall>serverId command.
         sweep_command (ms_db st) e = Some (serverId, command)
         \<longrightarrow> SSH_executeCommand serverId command \<in> set (snd (on_SIGINT ex now st)))
   \<and> (\<forall>r\<in>set (lives (ms_db st)).
         accepted_rounds ex (ms_db st) (activeTransmissions st) (l_codigo r) \<noteq> []
         \<longrightarrow> swept_row ex now (ms_db st) (activeTransmissions st) r
               = r\<lparr>l_status := ''0'',
                   l_data_fim := Some (now (last (accepted_rounds ex (ms_db st) (activeTransmissions st)
                                                   (l_codigo r))))\<rparr>)
   \<and> (\<forall>r\<in>set (lives (ms_db st)).
         accepted_rounds ex (ms_db st) (activeTransmissions st) (l_codigo r) = []
         \<longrightarrow> swept_row ex now (ms_db st) (activeTransmissions st) r = r)"
proof (intro conjI ballI allI impI)
  show "fst (on_SIGINT ex now st)
     = \<lparr> ms_db = (ms_db st)\<lparr>lives := map (swept_row ex now (ms_db st) (activeTransmissions st))
                                          (lives (ms_db st))\<rparr>,
         activeTransmissions = [] \<rparr>"
    unfolding on_SIGINT_state sweep_store ..
next
  show "snd (on_SIGINT ex now st) = sweep_requests (ms_db st) (activeTransmissions st)"
    unfolding on_SIGINT_parts(3) by (rule sweep_actions)
next
  fix e serverId command
  assume "e \<in> set (activeTransmissions st)" and "sweep_command (ms_db st) e = Some (serverId, command)"
  then show "SSH_executeCommand serverId command \<in> set (snd (on_SIGINT ex now st))"
    unfolding on_SIGINT_parts(3) by (rule sweep_issues_command)
next
  fix r :: live
  assume "accepted_rounds ex (ms_db st) (activeTransmissions st) (l_codigo r) \<noteq> []"
  then show "swept_row ex now (ms_db st) (activeTransmissions st) r
               = r\<lparr>l_status := ''0'',
                   l_data_fim := Some (now (last (accepted_rounds ex (ms_db st) (activeTransmissions st)
                                                   (l_codigo r))))\<rparr>"
    by (rule swept_row_last)
next
  fix r :: live
  assume "accepted_rounds ex (ms_db st) (activeTransmissions st) (l_codigo r) = []"
  then show "swept_row ex now (ms_db st) (activeTransmissions st) r = r"
    by (rule swept_row_none)
qed

theorem sweep_finalizes_registered_sessions_witness:
  "(7, 1) \<in> set (activeTransmissions \<lparr> ms_db = db_alice_live, activeTransmissions = [(7, 1)] \<rparr>)
   \<and> sweep_command db_alice_live (7, 1) = Some (1, ''echo OK; '' @ killCommand ''alice'' 1)
   \<and> SSH_executeCommand 1 (''echo OK; '' @ killCommand ''alice'' 1)
        \<in> set (snd (on_SIGINT (transport_counting ''1'') clock_300
                      \<lparr> ms_db = db_alice_live, activeTransmissions = [(7, 1)] \<rparr>))
   \<and> alice_live \<in> set (lives db_alice_live)
   \<and> accepted_rounds (transport_counting ''1'') db_alice_live [(7, 1)] (l_codigo alice_live) = [(7, 1)]
   \<and> lives (ms_db (fst (on_SIGINT (transport_counting ''1'') clock_300
                      \<lparr> ms_db = db_alice_live, activeTransmissions = [(7, 1)] \<rparr>)))
        = [alice_live\<lparr>l_status := ''0'', l_data_fim := Some 300\<rparr>]
   \<and> accepted_rounds transport_down db_alice_live [(7, 1)] (l_codigo alice_live) = []
   \<and> lives (ms_db (fst (on_SIGINT transport_down clock_300
                      \<lparr> ms_db = db_alice_live, activeTransmissions = [(7, 1)] \<rparr>)))
        = [alice_live]
   \<and> snd (on_SIGINT transport_down clock_300
             \<lparr> ms_db = db_alice_live, activeTransmissions = [(7, 1)] \<rparr>)
        = [SSH_executeCommand 1 (''echo OK; '' @ killCommand ''alice'' 1)]
   \<and> accepted_rounds (transport_counting ''1'') db_alice_live initial_registry (l_codigo alice_live) = []
   \<and> lives (ms_db (fst (on_SIGINT (transport_counting ''1'') clock_300
                      \<lparr> ms_db = db_alice_live, activeTransmissions = initial_registry \<rparr>)))
        = [alice_live]"
proof -
  let ?st = "\<lparr> ms_db = db_alice_live, activeTransmissions = [(7, 1)] \<rparr>"
  have cmd: "sweep_command db_alice_live (7, 1) = Some (1, ''echo OK; '' @ killCommand ''alice'' 1)"
    by (simp add: sweep_command_def alice_live_def db_alice_idle_def db_alice_live_def
          sweep_login_def truthy_str_def servidor_of_def)
  have up: "stop_accepted (transport_counting ''1'') db_alice_live (7, 1)"
    unfolding stop_accepted_def cmd by (simp add: transport_counting_def)
  have down: "\<not> stop_accepted transport_down db_alice_live (7, 1)"
    unfolding stop_accepted_def cmd by (simp add: transport_down_def)
  have lv: "lives db_alice_live = [alice_live]" by (simp add: db_alice_live_def)
  have cod: "l_codigo alice_live = 1" by (simp add: alice_live_def)
  have r_up: "accepted_rounds (transport_counting ''1'') db_alice_live [(7, 1)] (l_codigo alice_live) = [(7, 1)]"
    using up by (simp add: accepted_rounds_def cod)
  have r_down: "accepted_rounds transport_down db_alice_live [(7, 1)] (l_codigo alice_live) = []"
    using down by (simp add: accepted_rounds_def cod)
  have st_db: "ms_db ?st = db_alice_live" and st_reg: "activeTransmissions ?st = [(7, 1)]"
    by simp_all
  note t_up = sweep_finalizes_registered_sessions
                [of "transport_counting ''1''" clock_300 ?st, unfolded st_db st_reg]
  note t_down = sweep_finalizes_registered_sessions
                [of transport_down clock_300 ?st, unfolded st_db st_reg]
  have mem: "alice_live \<in> set (lives db_alice_live)" unfolding lv by simp
  have "swept_row (transport_counting ''1'') clock_300 db_alice_live [(7, 1)] alice_live
          = alice_live\<lparr>l_status := ''0'',
              l_data_fim := Some (clock_300 (last (accepted_rounds (transport_counting ''1'')
                                                     db_alice_live [(7, 1)] (l_codigo alice_live))))\<rparr>"
    by (rule t_up [THEN conjunct2, THEN conjunct2, THEN conjunct2, THEN conjunct1, THEN bspec,
                   OF mem, THEN mp])
       (simp only: r_up list.distinct not_False_eq_True)
  then have row_up: "swept_row (transport_counting ''1'') clock_300 db_alice_live [(7, 1)] alice_live
                  = alice_live\<lparr>l_status := ''0'', l_data_fim := Some 300\<rparr>"
    by (simp only: clock_300_def)
  have row_down: "swept_row transport_down clock_300 db_alice_live [(7, 1)] alice_live = alice_live"
    by (rule t_down [THEN conjunct2, THEN conjunct2, THEN conjunct2, THEN conjunct2, THEN bspec,
                     OF mem, THEN mp])
       (rule r_down)
  have "lives (ms_db (fst (on_SIGINT (transport_counting ''1'') clock_300 ?st)))
          = map (swept_row (transport_counting ''1'') clock_300 db_alice_live [(7, 1)]) (lives db_alice_live)"
    unfolding t_up [THEN conjunct1] by simp
  then have s_up: "lives (ms_db (fst (on_SIGINT (transport_counting ''1'') clock_300 ?st)))
                = [alice_live\<lparr>l_status := ''0'', l_data_fim := Some 300\<rparr>]"
    by (simp only: lv list.map row_up)
  have "lives (ms_db (fst (on_SIGINT transport_down clock_300 ?st)))
          = map (swept_row transport_down clock_300 db_alice_live [(7, 1)]) (lives db_alice_live)"
    unfolding t_down [THEN conjunct1] by simp
  then have s_down: "lives (ms_db (fst (on_SIGINT transport_down clock_300 ?st))) = [alice_live]"
    by (simp only: lv list.map row_down)
  have req: "sweep_requests db_alice_live [(7, 1)]
               = [SSH_executeCommand 1 (''echo OK; '' @ killCommand ''alice'' 1)]"
    unfolding sweep_requests_def by (simp only: list.map cmd option.case prod.case concat.simps append_Nil2)
  have a_down: "snd (on_SIGINT transport_down clock_300 ?st)
        = [SSH_executeCommand 1 (''echo OK; '' @ killCommand ''alice'' 1)]"
    unfolding t_down [THEN conjunct2, THEN conjunct1] by (rule req)
  have a_up: "SSH_executeCommand 1 (''echo OK; '' @ killCommand ''alice'' 1)
        \<in> set (snd (on_SIGINT (transport_counting ''1'') clock_300 ?st))"
    unfolding t_up [THEN conjunct2, THEN conjunct1] req by simp
  let ?st0 = "\<lparr> ms_db = db_alice_live, activeTransmissions = initial_registry \<rparr>"
  have st0_db: "ms_db ?st0 = db_alice_live" and st0_reg: "activeTransmissions ?st0 = initial_registry"
    by simp_all
  note t_none = sweep_finalizes_registered_sessions
                [of "transport_counting ''1''" clock_300 ?st0, unfolded st0_db st0_reg]
  have r_none: "accepted_rounds (transport_counting ''1'') db_alice_live initial_registry
                  (l_codigo alice_live) = []"
    by (simp add: accepted_rounds_def initial_registry_def)
  have row_none: "swept_row (transport_counting ''1'') clock_300 db_alice_live initial_registry alice_live
                    = alice_live"
    by (rule t_none [THEN conjunct2, THEN conjunct2, THEN conjunct2, THEN conjunct2, THEN bspec,
                     OF mem, THEN mp])
       (rule r_none)
  have "lives (ms_db (fst (on_SIGINT (transport_counting ''1'') clock_300 ?st0)))
          = map (swept_row (transport_counting ''1'') clock_300 db_alice_live initial_registry)
              (lives db_alice_live)"
    unfolding t_none [THEN conjunct1] by simp
  then have s_none: "lives (ms_db (fst (on_SIGINT (transport_counting ''1'') clock_300 ?st0))) = [alice_live]"
    by (simp only: lv list.map row_none)
  show ?thesis
    by (intro conjI) (simp, rule cmd, rule a_up, rule mem, rule r_up, rule s_up, rule r_down,
        rule s_down, rule a_down, rule r_none, rule s_none)
qed

subsection \<open>Push targets of a SMIL stream\<close>

lemma map_fst_push_all:
  "map fst (push_all pushPublish userLogin i platforms)
     = map (configurePushPublish_request userLogin) platforms"
  by (induction platforms arbitrary: i) simp_all

lemma is_push_request_simps [simp]:
  "is_push_request (configurePushPublish_request userLogin platform)"
  "\<not> is_push_request (checkApplicationExists_request userLogin)"
  "\<not> is_push_request (createUserApplication_request userLogin userConfig)"
  "\<not> is_push_request (startStreamPublisher_request userLogin smilFile)"
  by (simp_all add: is_push_request_def configurePushPublish_request_def
        checkApplicationExists_request_def createUserApplication_request_def
        startStreamPublisher_request_def)

lemma filter_push_requests:
  "filter is_push_request (map (configurePushPublish_request userLogin) platforms)
     = map (configurePushPublish_request userLogin) platforms"
  by (induction platforms) simp_all

lemma startSMILStream_connected:
  assumes "we_connect env = Response_ok ()" and "sc_platforms config = Some platforms"
  shows "fst (startSMILStream env config) =
           \<lparr> sm_success = True, sm_streamId = Some (sc_streamId config),
             sm_data = Some
               \<lparr> sm_rtmpUrl = ''rtmp://stmv1.udicast.com:1935/'' @ sc_userLogin config,
                 sm_streamName = sc_userLogin config,
                 sm_hlsUrl = ''http://stmv1.udicast.com:80/'' @ sc_userLogin config @ ''/''
                             @ sc_userLogin config @ ''/playlist.m3u8'',
                 sm_smilUrl = ''http://stmv1.udicast.com:80/'' @ sc_userLogin config @ ''/smil:''
                              @ sc_smilFile config @ ''/playlist.m3u8'',
                 sm_bitrate = or_num (uc_bitrate (sc_userConfig config)) 2500 \<rparr>,
             sm_error = None \<rparr>"
    and "filter is_push_request (snd (startSMILStream env config))
           = map (configurePushPublish_request (sc_userLogin config)) platforms"
  using assms
  by (simp_all add: startSMILStream_def Let_def startStreamPublisher_def result_of_action_def
        map_fst_push_all filter_push_requests)

text \<open>
  C6, as stated, fails in its last part. With the primary relay up and two targets, the
  run in which both push-publish calls time out and the run in which both succeed return
  the same object: the response does not tell which targets failed.
\<close>

theorem failed_targets_not_reported_counterexample:
  "push_outcomes (relay_up pushes_time_out) alice_smil = [False, False]
   \<and> push_outcomes (relay_up pushes_succeed) alice_smil = [True, True]
   \<and> sm_success (fst (startSMILStream (relay_up pushes_time_out) alice_smil)) = True
   \<and> fst (startSMILStream (relay_up pushes_time_out) alice_smil)
       = fst (startSMILStream (relay_up pushes_succeed) alice_smil)"
  by (simp add: push_outcomes_def alice_smil_def relay_up_def pushes_time_out_def pushes_succeed_def
        configurePushPublish_def result_of_action_def startSMILStream_def Let_def
        startStreamPublisher_def numeral_2_eq_2)

text \<open>
  C6, amended. For a start with N configured push targets where the primary relay
  succeeds, failures of the push-publish calls, however many, do not abort the parent
  operation: a request is sent for every target, in order, and the start returns overall
  success. The failed targets are not reported in the response, which is the same object
  whatever the outcomes of the push-publish calls; they are only written to the log.
\<close>

theorem startSMILStream_continues_after_push_failures:
  "we_connect env = Response_ok () \<and> sc_platforms config = Some platforms
   \<longrightarrow> sm_success (fst (startSMILStream env config)) = True
       \<and> filter is_push_request (snd (startSMILStream env config))
           = map (configurePushPublish_request (sc_userLogin config)) platforms
       \<and> fst (startSMILStream (env\<lparr>we_pushPublish := others\<rparr>) config)
           = fst (startSMILStream env config)"
proof
  assume h: "we_connect env = Response_ok () \<and> sc_platforms config = Some platforms"
  then have c: "we_connect env = Response_ok ()" and p: "sc_platforms config = Some platforms"
    by simp_all
  have c': "we_connect (env\<lparr>we_pushPublish := others\<rparr>) = Response_ok ()" using c by simp
  show "sm_success (fst (startSMILStream env config)) = True
       \<and> filter is_push_request (snd (startSMILStream env config))
           = map (configurePushPublish_request (sc_userLogin config)) platforms
       \<and> fst (startSMILStream (env\<lparr>we_pushPublish := others\<rparr>) config)
           = fst (startSMILStream env config)"
    unfolding startSMILStream_connected(1)[OF c p] startSMILStream_connected(1)[OF c' p]
      startSMILStream_connected(2)[OF c p]
    by simp
qed

theorem startSMILStream_continues_after_push_failures_witness:
  "(we_connect (relay_up only_first_push_succeeds) = Response_ok ()
      \<and> sc_platforms alice_smil = Some [youtube_target, twitch_target])
   \<and> push_outcomes (relay_up only_first_push_succeeds) alice_smil = [True, False]
   \<and> sm_success (fst (startSMILStream (relay_up only_first_push_succeeds) alice_smil)) = True
   \<and> filter is_push_request (snd (startSMILStream (relay_up only_first_push_succeeds) alice_smil))
       = [configurePushPublish_request ''alice'' youtube_target,
          configurePushPublish_request ''alice'' twitch_target]"
proof -
  have a: "we_connect (relay_up only_first_push_succeeds) = Response_ok ()
      \<and> sc_platforms alice_smil = Some [youtube_target, twitch_target]"
    by (simp add: relay_up_def alice_smil_def)
  have b: "push_outcomes (relay_up only_first_push_succeeds) alice_smil = [True, False]"
    by (simp add: push_outcomes_def alice_smil_def relay_up_def only_first_push_succeeds_def
          configurePushPublish_def result_of_action_def)
  have l: "sc_userLogin alice_smil = ''alice''" by (simp add: alice_smil_def)
  show ?thesis
    using a b l startSMILStream_continues_after_push_failures
        [of "relay_up only_first_push_succeeds" alice_smil "[youtube_target, twitch_target]"]
    by simp
qed

subsection \<open>Finding the owner's stream\<close>

lemma matches_user_iff: "matches_user userLogin stream \<longleftrightarrow> js_includes (is_name stream) userLogin"
  by (auto simp: matches_user_def js_includes_def)

lemma find_Some_holds: "find P xs = Some x \<Longrightarrow> x \<in> set xs \<and> P x"
  by (induction xs) (auto split: if_splits)

lemma find_None_two_tier:
  "findStreamForOwner_two_tier userLogin streams = None
     \<longleftrightarrow> find (\<lambda>s. js_includes (is_name s) userLogin) streams = None"
proof (cases "find (\<lambda>s. is_name s = userLogin @ ''_live'' \<or> is_name s = userLogin) streams")
  case None
  then show ?thesis by (simp add: findStreamForOwner_two_tier_def)
next
  case (Some x)
  then have x: "x \<in> set streams"
    and e: "is_name x = userLogin @ ''_live'' \<or> is_name x = userLogin"
    using find_Some_holds[OF Some] by simp_all
  have "js_includes (is_name x) userLogin"
    using e by (auto simp: js_includes_def)
  then have "find (\<lambda>s. js_includes (is_name s) userLogin) streams \<noteq> None"
    using x by (auto simp: find_None_iff)
  then show ?thesis using Some by (simp add: findStreamForOwner_two_tier_def)
qed

text \<open>
  C7, as stated, fails. For the login \<open>alice\<close> and the incoming streams \<open>malice\<close>,
  \<open>alice\<close> in that order, the service picks \<open>malice\<close>, the first stream that passes its
  one test, where an exact match tried first over the whole list picks \<open>alice\<close>.
\<close>

theorem findUserStream_not_two_tier_counterexample:
  "findUserStream ''alice'' (Some [stream_named ''malice'', stream_named ''alice''])
     = Some (stream_named ''malice'')
   \<and> findStreamForOwner_two_tier ''alice'' [stream_named ''malice'', stream_named ''alice'']
     = Some (stream_named ''alice'')"
  by (simp add: findUserStream_def findStreamForOwner_two_tier_def matches_user_def stream_named_def
        js_includes_def sublist_code)

text \<open>
  C7, amended. The search is one pass over the incoming-stream list in list order with
  one test per stream: the name equals the login followed by \<open>_live\<close>, or equals the
  login, or contains the login. Since the first two imply the third, the first stream
  whose name contains the login wins, also when a stream later in the list matches
  exactly. No match, or no list, means not-live; and a match exists under this search
  exactly when one exists under the two-tier search.
\<close>

theorem findUserStream_first_containing_login:
  "findUserStream userLogin (Some streams) = find (\<lambda>s. js_includes (is_name s) userLogin) streams
   \<and> filterUserStreams userLogin (Some streams) = filter (\<lambda>s. js_includes (is_name s) userLogin) streams
   \<and> findUserStream userLogin None = None
   \<and> (findUserStream userLogin (Some streams) = None
        \<longleftrightarrow> (\<forall>s\<in>set streams. \<not> js_includes (is_name s) userLogin))
   \<and> (findUserStream userLogin (Some streams) = None
        \<longleftrightarrow> findStreamForOwner_two_tier userLogin streams = None)
   \<and> (\<exists>stats. getOBSStreamStats userRows userId (Response_ok incoming) = Inr stats
        \<and> os_isLive stats = (findUserStream (service_login userRows userId) incoming \<noteq> None))
   \<and> ic_hasActiveStreams (checkUserIncomingStreams userRows userId (Response_ok incoming))
        = (findUserStream (service_login userRows userId) incoming \<noteq> None)"
proof -
  have m: "matches_user userLogin = (\<lambda>s. js_includes (is_name s) userLogin)" for userLogin
    by (rule ext) (rule matches_user_iff)
  have a: "findUserStream userLogin (Some streams) = find (\<lambda>s. js_includes (is_name s) userLogin) streams"
    by (simp add: findUserStream_def m)
  have b: "filterUserStreams userLogin (Some streams) = filter (\<lambda>s. js_includes (is_name s) userLogin) streams"
    by (simp add: filterUserStreams_def m)
  have c: "findUserStream userLogin None = None"
    by (simp add: findUserStream_def)
  have d: "findUserStream userLogin (Some streams) = None
        \<longleftrightarrow> (\<forall>s\<in>set streams. \<not> js_includes (is_name s) userLogin)"
    unfolding a by (auto simp: find_None_iff)
  have e: "findUserStream userLogin (Some streams) = None
        \<longleftrightarrow> findStreamForOwner_two_tier userLogin streams = None"
    unfolding a find_None_two_tier by simp
  have f: "\<exists>stats. getOBSStreamStats userRows userId (Response_ok incoming) = Inr stats
        \<and> os_isLive stats = (findUserStream (service_login userRows userId) incoming \<noteq> None)"
    by (cases "findUserStream (service_login userRows userId) incoming")
       (simp_all add: getOBSStreamStats_def Let_def obs_offline_def)
  have g: "ic_hasActiveStreams (checkUserIncomingStreams userRows userId (Response_ok incoming))
        = (findUserStream (service_login userRows userId) incoming \<noteq> None)"
    by (cases incoming)
       (auto simp: checkUserIncomingStreams_def Let_def filterUserStreams_def findUserStream_def
          find_None_iff filter_empty_conv)
  show ?thesis using a b c d e f g by blast
qed

theorem findUserStream_first_containing_login_witness:
  "\<not> js_includes (is_name (stream_named ''bob_live'')) ''alice''
   \<and> \<not> js_includes (is_name (stream_named ''carol'')) ''alice''
   \<and> findUserStream ''alice'' (Some [stream_named ''bob_live'', stream_named ''carol'']) = None
   \<and> findStreamForOwner_two_tier ''alice'' [stream_named ''bob_live'', stream_named ''carol''] = None"
proof -
  have a: "\<not> js_includes (is_name (stream_named ''bob_live'')) ''alice''"
    "\<not> js_includes (is_name (stream_named ''carol'')) ''alice''"
    by (simp_all add: stream_named_def js_includes_def sublist_code)
  then have a': "\<forall>s\<in>set [stream_named ''bob_live'', stream_named ''carol'']. \<not> js_includes (is_name s) ''alice''"
    by simp
  note t = findUserStream_first_containing_login
      [of "''alice''" "[stream_named ''bob_live'', stream_named ''carol'']" "[]" 0 None]
  have b: "findUserStream ''alice'' (Some [stream_named ''bob_live'', stream_named ''carol'']) = None"
    using a' t by blast
  have c: "findStreamForOwner_two_tier ''alice'' [stream_named ''bob_live'', stream_named ''carol''] = None"
    using b t by blast
  show ?thesis using a b c by blast
qed

subsection \<open>Timeouts of the calls\<close>

text \<open>
  C8, as stated, fails. The push-publish call is a POST and the stop call is a PUT, both
  mutating, and each is sent with a timeout of 10000 ms where the claim has 15000 ms.
\<close>

theorem mutating_call_timeout_counterexample:
  "mutating (request_of (Op_configurePushPublish ''alice'' youtube_target))
   \<and> rq_timeout (request_of (Op_configurePushPublish ''alice'' youtube_target)) = 10000
   \<and> spec_timeout (request_of (Op_configurePushPublish ''alice'' youtube_target)) = 15000
   \<and> mutating (request_of (Op_stopStream ''stream_alice_1''))
   \<and> rq_timeout (request_of (Op_stopStream ''stream_alice_1'')) = 10000
   \<and> spec_timeout (request_of (Op_stopStream ''stream_alice_1'')) = 15000"
  by (simp add: mutating_def spec_timeout_def configurePushPublish_request_def stopStream_request_def
        smil_action_request_def)

text \<open>
  C8, amended. Every call made by the media-server client carries an explicit timeout:
  15 seconds for the two provisioning calls (creating the application and connecting the
  stream publisher) and 10 seconds for every other call, reads and the remaining mutating
  calls alike (push-publish entry, disconnect, pause, play, disconnectStream). A call
  that times out, like any call that throws, is treated as a failed call and never as
  success: every method returns its failure value, and getOBSStreamStats throws. (The
  function \<open>checkWowzaStream\<close> of the routes file, which sets no timeout, is called by
  no route and is not part of the client.)
\<close>

theorem wowza_call_timeouts:
  "rq_timeout (request_of op) = (if provisioning op then 15000 else 10000)
   \<and> (\<not> mutating (request_of op) \<longrightarrow> rq_timeout (request_of op) = spec_timeout (request_of op))
   \<and> (provisioning op \<longrightarrow> rq_timeout (request_of op) = spec_timeout (request_of op))
   \<and> ct_success (testConnection (Fetch_throws message)) = False
   \<and> checkApplicationExists (Fetch_throws message) = False
   \<and> createUserApplication (Fetch_throws message) = False
   \<and> r_success (startStreamPublisher (Fetch_throws message)) = False
   \<and> r_success (configurePushPublish (Fetch_throws message)) = False
   \<and> r_success (stopStream (Fetch_throws message)) = False
   \<and> r_success (stopOBSStream (Fetch_throws message)) = False
   \<and> r_success (pauseSMILStream (Fetch_throws message)) = False
   \<and> r_success (resumeSMILStream (Fetch_throws message)) = False
   \<and> ss_isActive (getStreamStats (Fetch_throws message)) = False
   \<and> getOBSStreamStats userRows userId (Fetch_throws message) = Inl ''userLogin is not defined''
   \<and> ic_success (checkUserIncomingStreams userRows userId (Fetch_throws message)) = False
   \<and> ic_hasActiveStreams (checkUserIncomingStreams userRows userId (Fetch_throws message)) = False
   \<and> li_success (listAllIncomingStreams (Fetch_throws message)) = False
   \<and> sd_success (getStreamDetails (Fetch_throws message)) = False
   \<and> li_success (listRecordings (Fetch_throws message)) = False"
proof -
  have t: "rq_timeout (request_of op) = (if provisioning op then 15000 else 10000)"
    by (cases op)
       (simp_all add: provisioning_def testConnection_request_def checkApplicationExists_request_def
          createUserApplication_request_def startStreamPublisher_request_def
          configurePushPublish_request_def stopStream_request_def getStreamStats_request_def
          incomingstreams_request_def getStreamDetails_request_def stopOBSStream_request_def
          pauseSMILStream_request_def resumeSMILStream_request_def listRecordings_request_def
          smil_action_request_def)
  have f: "ct_success (testConnection (Fetch_throws message)) = False"
    "checkApplicationExists (Fetch_throws message) = False"
    "createUserApplication (Fetch_throws message) = False"
    "r_success (startStreamPublisher (Fetch_throws message)) = False"
    "r_success (configurePushPublish (Fetch_throws message)) = False"
    "r_success (stopStream (Fetch_throws message)) = False"
    "r_success (stopOBSStream (Fetch_throws message)) = False"
    "r_success (pauseSMILStream (Fetch_throws message)) = False"
    "r_success (resumeSMILStream (Fetch_throws message)) = False"
    by (simp_all add: testConnection_def checkApplicationExists_def createUserApplication_def
          startStreamPublisher_def configurePushPublish_def stopStream_def stopOBSStream_def
          pauseSMILStream_def resumeSMILStream_def result_of_action_def result_of_toggle_def)
  have g: "ss_isActive (getStreamStats (Fetch_throws message)) = False"
    "getOBSStreamStats userRows userId (Fetch_throws message) = Inl ''userLogin is not defined''"
    "ic_success (checkUserIncomingStreams userRows userId (Fetch_throws message)) = False"
    "ic_hasActiveStreams (checkUserIncomingStreams userRows userId (Fetch_throws message)) = False"
    "li_success (listAllIncomingStreams (Fetch_throws message)) = False"
    "sd_success (getStreamDetails (Fetch_throws message)) = False"
    "li_success (listRecordings (Fetch_throws message)) = False"
    by (simp_all add: getStreamStats_def no_stats_def getOBSStreamStats_def
          checkUserIncomingStreams_def listAllIncomingStreams_def getStreamDetails_def
          listRecordings_def Let_def)
  have m: "provisioning op \<longrightarrow> mutating (request_of op)"
    by (cases op)
       (simp_all add: provisioning_def mutating_def createUserApplication_request_def
          startStreamPublisher_request_def)
  have r: "\<not> mutating (request_of op) \<longrightarrow> rq_timeout (request_of op) = spec_timeout (request_of op)"
    using t m by (auto simp: spec_timeout_def)
  have p: "provisioning op \<longrightarrow> rq_timeout (request_of op) = spec_timeout (request_of op)"
    using t m by (auto simp: spec_timeout_def)
  show ?thesis using t r p f g by simp
qed

theorem wowza_call_timeouts_witness:
  "\<not> mutating (request_of Op_testConnection)
   \<and> rq_timeout (request_of Op_testConnection) = 10000
   \<and> spec_timeout (request_of Op_testConnection) = 10000
   \<and> provisioning (Op_startStreamPublisher ''alice'' ''playlists_agendamentos.smil'')
   \<and> rq_timeout (request_of (Op_startStreamPublisher ''alice'' ''playlists_agendamentos.smil'')) = 15000
   \<and> spec_timeout (request_of (Op_startStreamPublisher ''alice'' ''playlists_agendamentos.smil'')) = 15000
   \<and> \<not> provisioning (Op_pauseSMILStream ''stream_alice_1'')
   \<and> rq_timeout (request_of (Op_pauseSMILStream ''stream_alice_1'')) = 10000"
proof -
  have a: "\<not> mutating (request_of Op_testConnection)"
    by (simp add: mutating_def testConnection_request_def)
  have b: "provisioning (Op_startStreamPublisher ''alice'' ''playlists_agendamentos.smil'')"
    "\<not> provisioning (Op_pauseSMILStream ''stream_alice_1'')" "\<not> provisioning Op_testConnection"
    by (simp_all add: provisioning_def)
  note t1 = wowza_call_timeouts [of Op_testConnection "[]" "[]" 0]
  note t2 = wowza_call_timeouts [of "Op_startStreamPublisher ''alice'' ''playlists_agendamentos.smil''" "[]" "[]" 0]
  note t3 = wowza_call_timeouts [of "Op_pauseSMILStream ''stream_alice_1''" "[]" "[]" 0]
  have c: "rq_timeout (request_of Op_testConnection) = 10000"
    "rq_timeout (request_of (Op_startStreamPublisher ''alice'' ''playlists_agendamentos.smil'')) = 15000"
    "rq_timeout (request_of (Op_pauseSMILStream ''stream_alice_1'')) = 10000"
    using t1 t2 t3 b by simp_all
  have d: "spec_timeout (request_of Op_testConnection) = 10000"
    "spec_timeout (request_of (Op_startStreamPublisher ''alice'' ''playlists_agendamentos.smil'')) = 15000"
    using t1 t2 a b c by simp_all
  show ?thesis using a b c d by simp
qed

end
